theory Spec2Isabelle
  imports Complex_Main "HOL-Library.Monad_Syntax"
begin

section \<open>The Gibbs Sea Water library: data model\<close>

text \<open>
  The development follows \<^verbatim>\<open>seawater/gibbs.py\<close>. Python floats are read as real numbers:
  every literal coefficient is the exact decimal that the source writes, and \<^verbatim>\<open>np.sqrt\<close>,
  \<^verbatim>\<open>np.log\<close> and \<^verbatim>\<open>np.exp\<close> are \<^const>\<open>sqrt\<close>, \<^const>\<open>ln\<close> and \<^const>\<open>exp\<close>.

  The public functions are wrapped by \<^verbatim>\<open>match_args_return\<close>, which turns every argument
  into a one-dimensional masked array of floats with a full mask
  (\<^verbatim>\<open>np.ma.atleast_1d(np.ma.masked_invalid(a))\<close>). A batch is therefore a list whose
  entries are \<^term>\<open>Some v\<close> (a value) or \<^term>\<open>None\<close> (masked, reported as undefined);
  arrays that meet in one expression are taken as already conformed, so the elementwise
  operations pair the entries up by position.
\<close>

type_synonym marr = "real option list"

text \<open>
  \<^verbatim>\<open>raise NameError('Wrong Combination of order/variables')\<close> in \<^verbatim>\<open>_gibbs\<close>, and the
  \<^verbatim>\<open>NameError\<close> that Python raises for a name bound in no enclosing scope; the
  \<^verbatim>\<open>UnboundLocalError\<close> of a local variable read before its assignment; the
  \<^verbatim>\<open>IndexError\<close> of a boolean index whose length differs from the indexed array; the
  \<^verbatim>\<open>ValueError\<close> of operands whose shapes cannot be broadcast together.
\<close>

datatype error = NameError string | UnboundLocalError string | IndexError | ValueError string

text \<open>
  Modelled from the spec: the Constants Table (module \<^verbatim>\<open>seawater.constants\<close>, imported as
  \<^verbatim>\<open>cte\<close>, is not among the sources). The functions below take the table as their first
  argument; \<open>cte_teos10\<close> holds the TEOS-10 values (scaling factor, Standard Ocean
  Reference Salinity, specific heat, Kelvin offset, salt-scaling ratio).
\<close>

record constants =
  sfac :: real
  SSO :: real
  cp0 :: real
  Kelvin :: real
  r1 :: real

definition cte_teos10 :: constants where
  "cte_teos10 = \<lparr>sfac = 0.0248826675584615, SSO = 35.16504, cp0 = 3991.86795711963,
     Kelvin = 273.15, r1 = 0.35\<rparr>"

subsection \<open>Masked arrays\<close>

definition getmaskarray :: "marr \<Rightarrow> bool list" where
  "getmaskarray a = map (\<lambda>v. v = None) a"

definition filled :: "marr \<Rightarrow> real \<Rightarrow> real list" where
  "filled a c = map (\<lambda>v. case v of None \<Rightarrow> c | Some r \<Rightarrow> r) a"

definition mask_or :: "bool list \<Rightarrow> bool list \<Rightarrow> bool list" where
  "mask_or m1 m2 = map2 (\<or>) m1 m2"

definition masked_less_equal :: "marr \<Rightarrow> real \<Rightarrow> marr" where
  "masked_less_equal a c = map (\<lambda>v. case v of None \<Rightarrow> None | Some r \<Rightarrow> if r \<le> c then None else Some r) a"

text \<open>
  \<^verbatim>\<open>np.broadcast_arrays\<close> on one-dimensional arrays: the lengths other than 1 must agree,
  and an array of length 1 is repeated. The arrays that come back are plain arrays; an entry
  \<open>None\<close> of a plain array is a NaN.
\<close>

definition broadcast_shape :: "nat list \<Rightarrow> error + nat" where
  "broadcast_shape ls =
    (case filter (\<lambda>l. l \<noteq> 1) ls of
       [] \<Rightarrow> Inr 1
     | n # ns \<Rightarrow> if filter (\<lambda>l. l \<noteq> n) ns = [] then Inr n
                 else Inl (ValueError ''shape mismatch: objects cannot be broadcast to a single shape''))"

definition broadcast_to :: "nat \<Rightarrow> 'a list \<Rightarrow> 'a list" where
  "broadcast_to n a = (case a of [v] \<Rightarrow> replicate n v | _ \<Rightarrow> a)"

text \<open>\<^verbatim>\<open>np.ma.array(data, mask=mask, copy=False)\<close> on plain data.\<close>

definition ma_array :: "real list \<Rightarrow> bool list \<Rightarrow> marr" where
  "ma_array d m = map2 (\<lambda>v b. if b then None else Some v) d m"

text \<open>
  The truth value of \<^verbatim>\<open>np.ma.all(b)\<close> in a condition: masked entries count as true, and
  when every entry is masked the result is the constant \<^verbatim>\<open>masked\<close>, which is falsy.
\<close>

definition ma_all :: "bool option list \<Rightarrow> bool" where
  "ma_all bs = (\<not> list_all (\<lambda>b. b = None) bs \<and> list_all (\<lambda>b. b \<noteq> Some False) bs)"

section \<open>The Gibbs derivative engine\<close>

subsection \<open>The literal polynomials of \<^verbatim>\<open>_gibbs\<close> and of the helper functions\<close>

(* _gibbs, line 220: g03 *)
definition g03_000 :: "real \<Rightarrow> real \<Rightarrow> real" where
  "g03_000 y z =
    101.342743139674 + z * (100015.695367145 + z * (-2544.5765420363 + z * (284.517778446287
    + z * (-33.3146754253611 + (4.20263108803084 - 0.546428511471039 * z) * z)))) + y *
    (5.90578347909402 + z * (-270.983805184062 + z * (776.153611613101 + z *
    (-196.51255088122 + (28.9796526294175 - 2.13290083518327 * z) * z))) + y *
    (-12357.785933039 + z * (1455.0364540468 + z * (-756.558385769359 + z *
    (273.479662323528 + z * (-55.5604063817218 + 4.34420671917197 * z)))) + y *
    (736.741204151612 + z * (-672.50778314507 + z * (499.360390819152 + z *
    (-239.545330654412 + (48.8012518593872 - 1.66307106208905 * z) * z))) + y *
    (-148.185936433658 + z * (397.968445406972 + z * (-301.815380621876 + (152.196371733841
    - 26.3748377232802 * z) * z)) + y * (58.0259125842571 + z * (-194.618310617595 + z *
    (120.520654902025 + z * (-55.2723052340152 + 6.48190668077221 * z))) + y *
    (-18.9843846514172 + y * (3.05081646487967 - 9.63108119393062 * z) + z *
    (63.5113936641785 + z * (-22.2897317140459 + 8.17060541818112 * z))))))))"

(* _gibbs, line 245: g08 *)
definition g08_000 :: "real \<Rightarrow> real \<Rightarrow> real \<Rightarrow> real \<Rightarrow> real" where
  "g08_000 x2 x y z =
    x2 * (1416.27648484197 + z * (-3310.49154044839 + z * (384.794152978599 + z *
    (-96.5324320107458 + (15.8408172766824 - 2.62480156590992 * z) * z))) + x *
    (-2432.14662381794 + x * (2025.80115603697 + y * (543.835333000098 + y *
    (-68.5572509204491 + y * (49.3667694856254 + y * (-17.1397577419788 + 2.49697009569508 *
    y))) - 22.6683558512829 * z) + x * (-1091.66841042967 - 196.028306689776 * y + x *
    (374.60123787784 - 48.5891069025409 * x + 36.7571622995805 * y) + 36.0284195611086 * z)
    + z * (-54.7919133532887 + (-4.08193978912261 - 30.1755111971161 * z) * z)) + z *
    (199.459603073901 + z * (-52.2940909281335 + (68.0444942726459 - 3.41251932441282 * z) *
    z)) + y * (-493.407510141682 + z * (-175.292041186547 + (83.1923927801819 -
    29.483064349429 * z) * z) + y * (-43.0664675978042 + z * (383.058066002476 + z *
    (-54.1917262517112 + 25.6398487389914 * z)) + y * (-10.0227370861875 - 460.319931801257
    * z + y * (0.875600661808945 + 234.565187611355 * z))))) + y * (168.072408311545 + z *
    (729.116529735046 + z * (-343.956902961561 + z * (124.687671116248 + z *
    (-31.656964386073 + 7.04658803315449 * z)))) + y * (880.031352997204 + y *
    (-225.267649263401 + y * (91.4260447751259 + y * (-21.6603240875311 + 2.13016970847183 *
    y) + z * (-297.728741987187 + (74.726141138756 - 36.4872919001588 * z) * z)) + z *
    (694.244814133268 + z * (-204.889641964903 + (113.561697840594 - 11.1282734326413 * z) *
    z))) + z * (-860.764303783977 + z * (337.409530269367 + z * (-178.314556207638 +
    (44.2040358308 - 7.92001547211682 * z) * z))))))"

(* _gibbs, line 288: g08 *)
definition g08_100 :: "real \<Rightarrow> real \<Rightarrow> real \<Rightarrow> real" where
  "g08_100 x y z =
    8645.36753595126 + z * (-6620.98308089678 + z * (769.588305957198 + z *
    (-193.0648640214916 + (31.6816345533648 - 5.24960313181984 * z) * z))) + x *
    (-7296.43987145382 + x * (8103.20462414788 + y * (2175.341332000392 + y *
    (-274.2290036817964 + y * (197.4670779425016 + y * (-68.5590309679152 + 9.98788038278032
    * y))) - 90.6734234051316 * z) + x * (-5458.34205214835 - 980.14153344888 * y + x *
    (2247.60742726704 - 340.1237483177863 * x + 220.542973797483 * y) + 180.142097805543 *
    z) + z * (-219.1676534131548 + (-16.32775915649044 - 120.7020447884644 * z) * z)) + z *
    (598.378809221703 + z * (-156.8822727844005 + (204.1334828179377 - 10.23755797323846 *
    z) * z)) + y * (-1480.222530425046 + z * (-525.876123559641 + (249.57717834054571 -
    88.449193048287 * z) * z) + y * (-129.1994027934126 + z * (1149.174198007428 + z *
    (-162.5751787551336 + 76.9195462169742 * z)) + y * (-30.0682112585625 -
    1380.9597954037708 * z + y * (2.626801985426835 + 703.695562834065 * z))))) + y *
    (1187.3715515697959 + z * (1458.233059470092 + z * (-687.913805923122 + z *
    (249.375342232496 + z * (-63.313928772146 + 14.09317606630898 * z)))) + y *
    (1760.062705994408 + y * (-450.535298526802 + y * (182.8520895502518 + y *
    (-43.3206481750622 + 4.26033941694366 * y) + z * (-595.457483974374 + (149.452282277512
    - 72.9745838003176 * z) * z)) + z * (1388.489628266536 + z * (-409.779283929806 +
    (227.123395681188 - 22.2565468652826 * z) * z))) + z * (-1721.528607567954 + z *
    (674.819060538734 + z * (-356.629112415276 + (88.4080716616 - 15.84003094423364 * z) *
    z)))))"

(* _gibbs, line 330: g03 *)
definition g03_010 :: "real \<Rightarrow> real \<Rightarrow> real" where
  "g03_010 y z =
    5.90578347909402 + z * (-270.983805184062 + z * (776.153611613101 + z *
    (-196.51255088122 + (28.9796526294175 - 2.13290083518327 * z) * z))) + y *
    (-24715.571866078 + z * (2910.0729080936 + z * (-1513.116771538718 + z *
    (546.959324647056 + z * (-111.1208127634436 + 8.68841343834394 * z)))) + y *
    (2210.2236124548363 + z * (-2017.52334943521 + z * (1498.081172457456 + z *
    (-718.6359919632359 + (146.4037555781616 - 4.9892131862671505 * z) * z))) + y *
    (-592.743745734632 + z * (1591.873781627888 + z * (-1207.261522487504 +
    (608.785486935364 - 105.4993508931208 * z) * z)) + y * (290.12956292128547 + z *
    (-973.091553087975 + z * (602.603274510125 + z * (-276.361526170076 + 32.40953340386105
    * z))) + y * (-113.90630790850321 + y * (21.35571525415769 - 67.41756835751434 * z) + z
    * (381.06836198507096 + z * (-133.7383902842754 + 49.023632509086724 * z)))))))"

(* _gibbs, line 351: g08 *)
definition g08_010 :: "real \<Rightarrow> real \<Rightarrow> real \<Rightarrow> real \<Rightarrow> real" where
  "g08_010 x2 x y z =
    x2 * (168.072408311545 + z * (729.116529735046 + z * (-343.956902961561 + z *
    (124.687671116248 + z * (-31.656964386073 + 7.04658803315449 * z)))) + x *
    (-493.407510141682 + x * (543.835333000098 + x * (-196.028306689776 + 36.7571622995805 *
    x) + y * (-137.1145018408982 + y * (148.10030845687618 + y * (-68.5590309679152 +
    12.4848504784754 * y))) - 22.6683558512829 * z) + z * (-175.292041186547 +
    (83.1923927801819 - 29.483064349429 * z) * z) + y * (-86.1329351956084 + z *
    (766.116132004952 + z * (-108.3834525034224 + 51.2796974779828 * z)) + y *
    (-30.0682112585625 - 1380.9597954037708 * z + y * (3.50240264723578 + 938.26075044542 *
    z)))) + y * (1760.062705994408 + y * (-675.802947790203 + y * (365.7041791005036 + y *
    (-108.30162043765552 + 12.78101825083098 * y) + z * (-1190.914967948748 +
    (298.904564555024 - 145.9491676006352 * z) * z)) + z * (2082.7344423998043 + z *
    (-614.668925894709 + (340.685093521782 - 33.3848202979239 * z) * z))) + z *
    (-1721.528607567954 + z * (674.819060538734 + z * (-356.629112415276 + (88.4080716616 -
    15.84003094423364 * z) * z)))))"

(* _gibbs, line 382: g03 *)
definition g03_001 :: "real \<Rightarrow> real \<Rightarrow> real" where
  "g03_001 y z =
    100015.695367145 + z * (-5089.1530840726 + z * (853.5533353388611 + z *
    (-133.2587017014444 + (21.0131554401542 - 3.278571068826234 * z) * z))) + y *
    (-270.983805184062 + z * (1552.307223226202 + z * (-589.53765264366 + (115.91861051767 -
    10.664504175916349 * z) * z)) + y * (1455.0364540468 + z * (-1513.116771538718 + z *
    (820.438986970584 + z * (-222.2416255268872 + 21.72103359585985 * z))) + y *
    (-672.50778314507 + z * (998.720781638304 + z * (-718.6359919632359 + (195.2050074375488
    - 8.31535531044525 * z) * z)) + y * (397.968445406972 + z * (-603.630761243752 +
    (456.589115201523 - 105.4993508931208 * z) * z) + y * (-194.618310617595 + y *
    (63.5113936641785 - 9.63108119393062 * y + z * (-44.5794634280918 + 24.511816254543362 *
    z)) + z * (241.04130980405 + z * (-165.8169157020456 + 25.92762672308884 * z)))))))"

(* _gibbs, line 403: g08 *)
definition g08_001 :: "real \<Rightarrow> real \<Rightarrow> real \<Rightarrow> real \<Rightarrow> real" where
  "g08_001 x2 x y z =
    x2 * (-3310.49154044839 + z * (769.588305957198 + z * (-289.5972960322374 +
    (63.3632691067296 - 13.1240078295496 * z) * z)) + x * (199.459603073901 + x *
    (-54.7919133532887 + 36.0284195611086 * x - 22.6683558512829 * y + (-8.16387957824522 -
    90.52653359134831 * z) * z) + z * (-104.588181856267 + (204.1334828179377 -
    13.65007729765128 * z) * z) + y * (-175.292041186547 + (166.3847855603638 -
    88.449193048287 * z) * z + y * (383.058066002476 + y * (-460.319931801257 +
    234.565187611355 * y) + z * (-108.3834525034224 + 76.9195462169742 * z)))) + y *
    (729.116529735046 + z * (-687.913805923122 + z * (374.063013348744 + z *
    (-126.627857544292 + 35.23294016577245 * z))) + y * (-860.764303783977 + y *
    (694.244814133268 + y * (-297.728741987187 + (149.452282277512 - 109.46187570047641 * z)
    * z) + z * (-409.779283929806 + (340.685093521782 - 44.5130937305652 * z) * z)) + z *
    (674.819060538734 + z * (-534.943668622914 + (176.8161433232 - 39.600077360584095 * z) *
    z)))))"

(* _gibbs, line 434: g08 *)
definition g08_110 :: "real \<Rightarrow> real \<Rightarrow> real \<Rightarrow> real" where
  "g08_110 x y z =
    1187.3715515697959 + z * (1458.233059470092 + z * (-687.913805923122 + z *
    (249.375342232496 + z * (-63.313928772146 + 14.09317606630898 * z)))) + x *
    (-1480.222530425046 + x * (2175.341332000392 + x * (-980.14153344888 + 220.542973797483
    * x) + y * (-548.4580073635929 + y * (592.4012338275047 + y * (-274.2361238716608 +
    49.9394019139016 * y))) - 90.6734234051316 * z) + z * (-525.876123559641 +
    (249.57717834054571 - 88.449193048287 * z) * z) + y * (-258.3988055868252 + z *
    (2298.348396014856 + z * (-325.1503575102672 + 153.8390924339484 * z)) + y *
    (-90.2046337756875 - 4142.8793862113125 * z + y * (10.50720794170734 + 2814.78225133626
    * z)))) + y * (3520.125411988816 + y * (-1351.605895580406 + y * (731.4083582010072 + y
    * (-216.60324087531103 + 25.56203650166196 * y) + z * (-2381.829935897496 +
    (597.809129110048 - 291.8983352012704 * z) * z)) + z * (4165.4688847996085 + z *
    (-1229.337851789418 + (681.370187043564 - 66.7696405958478 * z) * z))) + z *
    (-3443.057215135908 + z * (1349.638121077468 + z * (-713.258224830552 + (176.8161433232
    - 31.68006188846728 * z) * z))))"

(* _gibbs, line 465: g08 *)
definition g08_101 :: "real \<Rightarrow> real \<Rightarrow> real \<Rightarrow> real" where
  "g08_101 x y z =
    -6620.98308089678 + z * (1539.176611914396 + z * (-579.1945920644748 +
    (126.7265382134592 - 26.2480156590992 * z) * z)) + x * (598.378809221703 + x *
    (-219.1676534131548 + 180.142097805543 * x - 90.6734234051316 * y + (-32.65551831298088
    - 362.10613436539325 * z) * z) + z * (-313.764545568801 + (612.4004484538132 -
    40.95023189295384 * z) * z) + y * (-525.876123559641 + (499.15435668109143 -
    265.347579144861 * z) * z + y * (1149.174198007428 + y * (-1380.9597954037708 +
    703.695562834065 * y) + z * (-325.1503575102672 + 230.7586386509226 * z)))) + y *
    (1458.233059470092 + z * (-1375.827611846244 + z * (748.126026697488 + z *
    (-253.255715088584 + 70.4658803315449 * z))) + y * (-1721.528607567954 + y *
    (1388.489628266536 + y * (-595.457483974374 + (298.904564555024 - 218.92375140095282 *
    z) * z) + z * (-819.558567859612 + (681.370187043564 - 89.0261874611304 * z) * z)) + z *
    (1349.638121077468 + z * (-1069.887337245828 + (353.6322866464 - 79.20015472116819 * z)
    * z))))"

(* _gibbs, line 497: g03 *)
definition g03_011 :: "real \<Rightarrow> real \<Rightarrow> real" where
  "g03_011 y z =
    -270.983805184062 + z * (1552.307223226202 + z * (-589.53765264366 + (115.91861051767 -
    10.664504175916349 * z) * z)) + y * (2910.0729080936 + z * (-3026.233543077436 + z *
    (1640.877973941168 + z * (-444.4832510537744 + 43.4420671917197 * z))) + y *
    (-2017.52334943521 + z * (2996.162344914912 + z * (-2155.907975889708 +
    (585.6150223126464 - 24.946065931335752 * z) * z)) + y * (1591.873781627888 + z *
    (-2414.523044975008 + (1826.356460806092 - 421.9974035724832 * z) * z) + y *
    (-973.091553087975 + z * (1205.20654902025 + z * (-829.084578510228 + 129.6381336154442
    * z)) + y * (381.06836198507096 - 67.41756835751434 * y + z * (-267.4767805685508 +
    147.07089752726017 * z))))))"

(* _gibbs, line 514: g08 *)
definition g08_011 :: "real \<Rightarrow> real \<Rightarrow> real \<Rightarrow> real \<Rightarrow> real" where
  "g08_011 x2 x y z =
    x2 * (729.116529735046 + z * (-687.913805923122 + z * (374.063013348744 + z *
    (-126.627857544292 + 35.23294016577245 * z))) + x * (-175.292041186547 -
    22.6683558512829 * x + (166.3847855603638 - 88.449193048287 * z) * z + y *
    (766.116132004952 + y * (-1380.9597954037708 + 938.26075044542 * y) + z *
    (-216.7669050068448 + 153.8390924339484 * z))) + y * (-1721.528607567954 + y *
    (2082.7344423998043 + y * (-1190.914967948748 + (597.809129110048 - 437.84750280190565 *
    z) * z) + z * (-1229.337851789418 + (1022.055280565346 - 133.5392811916956 * z) * z)) +
    z * (1349.638121077468 + z * (-1069.887337245828 + (353.6322866464 - 79.20015472116819 *
    z) * z))))"

(* _gibbs, line 536: g08 *)
definition g08_200 :: "real \<Rightarrow> real \<Rightarrow> real \<Rightarrow> real" where
  "g08_200 x y z =
    2 * (8103.20462414788 + y * (2175.341332000392 + y * (-274.2290036817964 + y *
    (197.4670779425016 + y * (-68.5590309679152 + 9.98788038278032 * y))) - 90.6734234051316
    * z) + 1.5 * x * (-5458.34205214835 - 980.14153344888 * y + 4 / 3 * x *
    (2247.60742726704 - 340.1237483177863 * 1.25 * x + 220.542973797483 * y) +
    180.142097805543 * z) + z * (-219.1676534131548 + (-16.32775915649044 -
    120.7020447884644 * z) * z))"

(* _gibbs, line 548: tmp *)
definition tmp_200 :: "real \<Rightarrow> real \<Rightarrow> real \<Rightarrow> real" where
  "tmp_200 x y z =
    (-7296.43987145382 + z * (598.378809221703 + z * (-156.8822727844005 +
    (204.1334828179377 - 10.23755797323846 * z) * z)) + y * (-1480.222530425046 + z *
    (-525.876123559641 + (249.57717834054571 - 88.449193048287 * z) * z) + y *
    (-129.1994027934126 + z * (1149.174198007428 + z * (-162.5751787551336 +
    76.9195462169742 * z)) + y * (-30.0682112585625 - 1380.9597954037708 * z + y *
    (2.626801985426835 + 703.695562834065 * z))))) / x + (11625.62913253464 +
    1702.453469893412 * y)"

(* _gibbs, line 563: g03 *)
definition g03_020 :: "real \<Rightarrow> real \<Rightarrow> real" where
  "g03_020 y z =
    -24715.571866078 + z * (2910.0729080936 + z * (-1513.116771538718 + z *
    (546.959324647056 + z * (-111.1208127634436 + 8.68841343834394 * z)))) + y *
    (4420.4472249096725 + z * (-4035.04669887042 + z * (2996.162344914912 + z *
    (-1437.2719839264719 + (292.8075111563232 - 9.978426372534301 * z) * z))) + y *
    (-1778.231237203896 + z * (4775.621344883664 + z * (-3621.784567462512 +
    (1826.356460806092 - 316.49805267936244 * z) * z)) + y * (1160.5182516851419 + z *
    (-3892.3662123519 + z * (2410.4130980405 + z * (-1105.446104680304 + 129.6381336154442 *
    z))) + y * (-569.531539542516 + y * (128.13429152494615 - 404.50541014508605 * z) + z *
    (1905.341809925355 + z * (-668.691951421377 + 245.11816254543362 * z))))))"

(* _gibbs, line 581: g08 *)
definition g08_020 :: "real \<Rightarrow> real \<Rightarrow> real \<Rightarrow> real \<Rightarrow> real" where
  "g08_020 x2 x y z =
    x2 * (1760.062705994408 + x * (-86.1329351956084 + x * (-137.1145018408982 + y *
    (296.20061691375236 + y * (-205.67709290374563 + 49.9394019139016 * y))) + z *
    (766.116132004952 + z * (-108.3834525034224 + 51.2796974779828 * z)) + y *
    (-60.136422517125 - 2761.9195908075417 * z + y * (10.50720794170734 + 2814.78225133626 *
    z))) + y * (-1351.605895580406 + y * (1097.1125373015109 + y * (-433.20648175062206 +
    63.905091254154904 * y) + z * (-3572.7449038462437 + (896.713693665072 -
    437.84750280190565 * z) * z)) + z * (4165.4688847996085 + z * (-1229.337851789418 +
    (681.370187043564 - 66.7696405958478 * z) * z))) + z * (-1721.528607567954 + z *
    (674.819060538734 + z * (-356.629112415276 + (88.4080716616 - 15.84003094423364 * z) *
    z))))"

(* _gibbs, line 602: g03 *)
definition g03_002 :: "real \<Rightarrow> real \<Rightarrow> real" where
  "g03_002 y z =
    -5089.1530840726 + z * (1707.1066706777221 + z * (-399.7761051043332 + (84.0526217606168
    - 16.39285534413117 * z) * z)) + y * (1552.307223226202 + z * (-1179.07530528732 +
    (347.75583155301 - 42.658016703665396 * z) * z) + y * (-1513.116771538718 + z *
    (1640.877973941168 + z * (-666.7248765806615 + 86.8841343834394 * z)) + y *
    (998.720781638304 + z * (-1437.2719839264719 + (585.6150223126464 - 33.261421241781 * z)
    * z) + y * (-603.630761243752 + (913.178230403046 - 316.49805267936244 * z) * z + y *
    (241.04130980405 + y * (-44.5794634280918 + 49.023632509086724 * z) + z *
    (-331.6338314040912 + 77.78288016926652 * z))))))"

(* _gibbs, line 618: g08 *)
definition g08_002 :: "real \<Rightarrow> real \<Rightarrow> real \<Rightarrow> real \<Rightarrow> real" where
  "g08_002 x2 x y z =
    x2 * (769.588305957198 + z * (-579.1945920644748 + (190.08980732018878 -
    52.4960313181984 * z) * z) + x * (-104.588181856267 + x * (-8.16387957824522 -
    181.05306718269662 * z) + (408.2669656358754 - 40.95023189295384 * z) * z + y *
    (166.3847855603638 - 176.898386096574 * z + y * (-108.3834525034224 + 153.8390924339484
    * z))) + y * (-687.913805923122 + z * (748.126026697488 + z * (-379.883572632876 +
    140.9317606630898 * z)) + y * (674.819060538734 + z * (-1069.887337245828 +
    (530.4484299696 - 158.40030944233638 * z) * z) + y * (-409.779283929806 + y *
    (149.452282277512 - 218.92375140095282 * z) + (681.370187043564 - 133.5392811916956 * z)
    * z))))"

(* _entropy_part, line 684: g03 *)
definition entropy_part_g03 :: "real \<Rightarrow> real \<Rightarrow> real" where
  "entropy_part_g03 y z =
    z * (-270.983805184062 + z * (776.153611613101 + z * (-196.51255088122 +
    (28.9796526294175 - 2.13290083518327 * z) * z))) + y * (-24715.571866078 + z *
    (2910.0729080936 + z * (-1513.116771538718 + z * (546.959324647056 + z *
    (-111.1208127634436 + 8.68841343834394 * z)))) + y * (2210.2236124548363 + z *
    (-2017.52334943521 + z * (1498.081172457456 + z * (-718.6359919632359 +
    (146.4037555781616 - 4.9892131862671505 * z) * z))) + y * (-592.743745734632 + z *
    (1591.873781627888 + z * (-1207.261522487504 + (608.785486935364 - 105.4993508931208 *
    z) * z)) + y * (290.12956292128547 + z * (-973.091553087975 + z * (602.603274510125 + z
    * (-276.361526170076 + 32.40953340386105 * z))) + y * (-113.90630790850321 + y *
    (21.35571525415769 - 67.41756835751434 * z) + z * (381.06836198507096 + z *
    (-133.7383902842754 + 49.023632509086724 * z)))))))"

(* _entropy_part, line 705: g08 *)
definition entropy_part_g08 :: "real \<Rightarrow> real \<Rightarrow> real \<Rightarrow> real \<Rightarrow> real" where
  "entropy_part_g08 x2 x y z =
    x2 * (z * (729.116529735046 + z * (-343.956902961561 + z * (124.687671116248 + z *
    (-31.656964386073 + 7.04658803315449 * z)))) + x * (x * (y * (-137.1145018408982 + y *
    (148.10030845687618 + y * (-68.5590309679152 + 12.4848504784754 * y))) -
    22.6683558512829 * z) + z * (-175.292041186547 + (83.1923927801819 - 29.483064349429 *
    z) * z) + y * (-86.1329351956084 + z * (766.116132004952 + z * (-108.3834525034224 +
    51.2796974779828 * z)) + y * (-30.0682112585625 - 1380.9597954037708 * z + y *
    (3.50240264723578 + 938.26075044542 * z)))) + y * (1760.062705994408 + y *
    (-675.802947790203 + y * (365.7041791005036 + y * (-108.30162043765552 +
    12.78101825083098 * y) + z * (-1190.914967948748 + (298.904564555024 - 145.9491676006352
    * z) * z)) + z * (2082.7344423998043 + z * (-614.668925894709 + (340.685093521782 -
    33.3848202979239 * z) * z))) + z * (-1721.528607567954 + z * (674.819060538734 + z *
    (-356.629112415276 + (88.4080716616 - 15.84003094423364 * z) * z)))))"

(* _gibbs_pt0_pt0, line 764: g03 *)
definition gibbs_pt0_pt0_g03 :: "real \<Rightarrow> real" where
  "gibbs_pt0_pt0_g03 y =
    -24715.571866078 + y * (4420.4472249096725 + y * (-1778.231237203896 + y *
    (1160.5182516851419 + y * (-569.531539542516 + y * 128.13429152494615))))"

(* _gibbs_pt0_pt0, line 770: g08 *)
definition gibbs_pt0_pt0_g08 :: "real \<Rightarrow> real \<Rightarrow> real \<Rightarrow> real" where
  "gibbs_pt0_pt0_g08 x2 x y =
    x2 * (1760.062705994408 + x * (-86.1329351956084 + x * (-137.1145018408982 + y *
    (296.20061691375236 + y * (-205.67709290374563 + 49.9394019139016 * y))) + y *
    (-60.136422517125 + y * 10.50720794170734)) + y * (-1351.605895580406 + y *
    (1097.1125373015109 + y * (-433.20648175062206 + 63.905091254154904 * y))))"

(* _entropy_part_zerop, line 816: g03 *)
definition entropy_part_zerop_g03 :: "real \<Rightarrow> real" where
  "entropy_part_zerop_g03 y =
    y * (-24715.571866078 + y * (2210.2236124548363 + y * (-592.743745734632 + y *
    (290.12956292128547 + y * (-113.90630790850321 + y * 21.35571525415769)))))"

(* _entropy_part_zerop, line 820: g08 *)
definition entropy_part_zerop_g08 :: "real \<Rightarrow> real \<Rightarrow> real \<Rightarrow> real" where
  "entropy_part_zerop_g08 x2 x y =
    x2 * (x * (x * (y * (-137.1145018408982 + y * (148.10030845687618 + y *
    (-68.5590309679152 + 12.4848504784754 * y)))) + y * (-86.1329351956084 + y *
    (-30.0682112585625 + y * 3.50240264723578))) + y * (1760.062705994408 + y *
    (-675.802947790203 + y * (365.7041791005036 + y * (-108.30162043765552 +
    12.78101825083098 * y)))))"

(* pot_enthalpy_from_pt, line 3382: pot_enthalpy *)
definition pot_enthalpy_poly :: "real \<Rightarrow> real \<Rightarrow> real \<Rightarrow> real" where
  "pot_enthalpy_poly x2 x y =
    61.01362420681071 + y * (168776.46138048015 + y * (-2735.2785605119625 + y *
    (2574.2164453821433 + y * (-1536.6644434977543 + y * (545.7340497931629 +
    (-50.91091728474331 - 18.30489878927802 * y) * y))))) + x2 * (268.5520265845071 + y *
    (-12019.028203559312 + y * (3734.858026725145 + y * (-2046.7671145057618 + y *
    (465.28655623826234 + (-0.6370820302376359 - 10.650848542359153 * y) * y)))) + x *
    (937.2099110620707 + y * (588.1802812170108 + y * (248.39476522971285 +
    (-3.871557904936333 - 2.6268019854268356 * y) * y)) + x * (-1687.914374187449 + x *
    (246.9598888781377 + x * (123.59576582457964 - 48.5891069025409 * x)) + y *
    (936.3206544460336 + y * (-942.7827304544439 + y * (369.4389437509002 +
    (-33.83664947895248 - 9.987880382780322 * y) * y))))))"

subsection \<open>One element of each derivative branch\<close>

text \<open>
  Each function evaluates one branch of \<^verbatim>\<open>_gibbs\<close> at one position of the filled arrays:
  \<open>x2 = cte.sfac * SA\<close>, \<open>x = np.sqrt(x2)\<close>, \<open>y = t * 0.025\<close>, \<open>z = p * 1e-4\<close>. The
  updates \<^verbatim>\<open>g08[ipos] += ...\<close> touch the positions with \<open>SA > 0\<close> only.
\<close>

fun gibbs_000 :: "real \<Rightarrow> bool \<Rightarrow> real \<times> real \<times> real \<Rightarrow> real" where
  "gibbs_000 sf nonzero (SA, t, p) =
    (let x2 = sf * SA; x = sqrt x2; y = t * 0.025; z = p * 0.0001;
         g03 = g03_000 y z;
         g08 = (if nonzero
                then g08_000 x2 x y z +
                     (if SA > 0 then x2 * (5812.81456626732 + 851.226734946706 * y) * ln x else 0)
                else 0)
     in g03 + g08)"

fun gibbs_100 :: "real \<Rightarrow> real \<times> real \<times> real \<Rightarrow> real" where
  "gibbs_100 sf (SA, t, p) =
    (let x2 = sf * SA; x = sqrt x2; y = t * 0.025; z = p * 0.0001;
         g08 = g08_100 x y z +
               (if SA > 0 then (11625.62913253464 + 1702.453469893412 * y) * ln x else 0)
     in 0.5 * sf * g08)"

fun gibbs_010 :: "real \<Rightarrow> bool \<Rightarrow> real \<times> real \<times> real \<Rightarrow> real" where
  "gibbs_010 sf nonzero (SA, t, p) =
    (let x2 = sf * SA; x = sqrt x2; y = t * 0.025; z = p * 0.0001;
         g03 = g03_010 y z
     in if nonzero
        then (g03 + (g08_010 x2 x y z + (if SA > 0 then 851.226734946706 * x2 * ln x else 0))) * 0.025
        else g03)"

fun gibbs_001 :: "real \<Rightarrow> bool \<Rightarrow> real \<times> real \<times> real \<Rightarrow> real" where
  "gibbs_001 sf nonzero (SA, t, p) =
    (let x2 = sf * SA; x = sqrt x2; y = t * 0.025; z = p * 0.0001;
         g03 = g03_001 y z;
         g08 = (if nonzero then g08_001 x2 x y z else 0)
     in (g03 + g08) * 0.00000001)"

fun gibbs_110 :: "real \<Rightarrow> real \<times> real \<times> real \<Rightarrow> real" where
  "gibbs_110 sf (SA, t, p) =
    (let x2 = sf * SA; x = sqrt x2; y = t * 0.025; z = p * 0.0001;
         g08 = g08_110 x y z + (if SA > 0 then 1702.453469893412 * ln x else 0)
     in 0.5 * sf * 0.025 * g08)"

fun gibbs_101 :: "real \<Rightarrow> real \<times> real \<times> real \<Rightarrow> real" where
  "gibbs_101 sf (SA, t, p) =
    (let x2 = sf * SA; x = sqrt x2; y = t * 0.025; z = p * 0.0001;
         g08 = g08_101 x y z
     in g08 * sf * 0.000000005)"

fun gibbs_011 :: "real \<Rightarrow> bool \<Rightarrow> real \<times> real \<times> real \<Rightarrow> real" where
  "gibbs_011 sf nonzero (SA, t, p) =
    (let x2 = sf * SA; x = sqrt x2; y = t * 0.025; z = p * 0.0001;
         g03 = g03_011 y z;
         g08 = (if nonzero then g08_011 x2 x y z else 0)
     in (g03 + g08) * 0.00000000025)"

fun gibbs_200 :: "real \<Rightarrow> bool \<Rightarrow> real \<times> real \<times> real \<Rightarrow> real" where
  "gibbs_200 sf nonzero (SA, t, p) =
    (let x2 = sf * SA; x = sqrt x2; y = t * 0.025; z = p * 0.0001;
         g08 = g08_200 x y z +
               (if nonzero \<and> SA > 0 then tmp_200 x y z / x2 else 0)
     in 0.25 * sf ^ 2 * g08)"

fun gibbs_020 :: "real \<Rightarrow> bool \<Rightarrow> real \<times> real \<times> real \<Rightarrow> real" where
  "gibbs_020 sf nonzero (SA, t, p) =
    (let x2 = sf * SA; x = sqrt x2; y = t * 0.025; z = p * 0.0001;
         g03 = g03_020 y z;
         g08 = (if nonzero then g08_020 x2 x y z else 0)
     in (g03 + g08) * 0.000625)"

fun gibbs_002 :: "real \<Rightarrow> bool \<Rightarrow> real \<times> real \<times> real \<Rightarrow> real" where
  "gibbs_002 sf nonzero (SA, t, p) =
    (let x2 = sf * SA; x = sqrt x2; y = t * 0.025; z = p * 0.0001;
         g03 = g03_002 y z;
         g08 = (if nonzero then g08_002 x2 x y z else 0)
     in (g03 + g08) * 0.0000000000000001)"

subsection \<open>The engine on a batch\<close>

text \<open>
  \<^verbatim>\<open>if (SA.size == 1 and SA[0] <= 0) or np.ma.all(SA <=0): nonzero_SA = False\<close>. A masked
  \<^verbatim>\<open>SA[0]\<close> compares to the falsy constant \<^verbatim>\<open>masked\<close>.
\<close>

definition nonzero_SA :: "marr \<Rightarrow> bool" where
  "nonzero_SA SA =
    (\<not> ((length SA = 1 \<and> (case SA ! 0 of None \<Rightarrow> False | Some s \<Rightarrow> s \<le> 0)) \<or>
        ma_all (map (map_option (\<lambda>s. s \<le> 0)) SA)))"

text \<open>
  \<^verbatim>\<open>_gibbs(ns, nt, npr, SA, t, p)\<close>: when some salinity is positive the entries with
  \<open>SA \<le> 0\<close> are masked (\<^verbatim>\<open>np.ma.masked_less_equal(SA, 0)\<close>); the masked entries are filled
  with \<open>SA = 0\<close>, \<open>t = 20\<close>, \<open>p = 10\<close>; \<^verbatim>\<open>np.broadcast_arrays(SA, t, p)\<close> brings the three
  arguments to one shape or raises; the result mask joins the masks of the three arguments
  (which \<^verbatim>\<open>mask_or\<close> broadcasts) with \<open>SA < 0\<close>; a branch that sets \<^verbatim>\<open>all_masked\<close>
  returns an entirely masked array. The order of the derivative is looked at after the
  broadcast.
\<close>

definition gibbs :: "constants \<Rightarrow> int \<Rightarrow> int \<Rightarrow> int \<Rightarrow> marr \<Rightarrow> marr \<Rightarrow> marr \<Rightarrow> error + marr" where
  "gibbs cte ns nt npr SA0 t0 p0 =
    (let nonzero = nonzero_SA SA0;
         SA1 = (if nonzero then masked_less_equal SA0 0 else SA0)
     in case broadcast_shape [length SA0, length t0, length p0] of
          Inl e \<Rightarrow> Inl e
        | Inr n \<Rightarrow>
           (let SA = broadcast_to n (filled SA1 0);
                t = broadcast_to n (filled t0 20);
                p = broadcast_to n (filled p0 10);
                mask = mask_or (mask_or (mask_or (broadcast_to n (getmaskarray SA1))
                                           (broadcast_to n (getmaskarray t0)))
                                  (broadcast_to n (getmaskarray p0)))
                         (map (\<lambda>s. s < 0) SA);
                pts = zip SA (zip t p);
                sf = sfac cte
            in if ns = 0 \<and> nt = 0 \<and> npr = 0 then Inr (ma_array (map (gibbs_000 sf nonzero) pts) mask)
               else if ns = 1 \<and> nt = 0 \<and> npr = 0 then
                 (if nonzero then Inr (ma_array (map (gibbs_100 sf) pts) mask)
                  else Inr (replicate (length pts) None))
               else if ns = 0 \<and> nt = 1 \<and> npr = 0 then Inr (ma_array (map (gibbs_010 sf nonzero) pts) mask)
               else if ns = 0 \<and> nt = 0 \<and> npr = 1 then Inr (ma_array (map (gibbs_001 sf nonzero) pts) mask)
               else if ns = 1 \<and> nt = 1 \<and> npr = 0 then
                 (if nonzero then Inr (ma_array (map (gibbs_110 sf) pts) mask)
                  else Inr (replicate (length pts) None))
               else if ns = 1 \<and> nt = 0 \<and> npr = 1 then Inr (ma_array (map (gibbs_101 sf) pts) mask)
               else if ns = 0 \<and> nt = 1 \<and> npr = 1 then Inr (ma_array (map (gibbs_011 sf nonzero) pts) mask)
               else if ns = 2 \<and> nt = 0 \<and> npr = 0 then Inr (ma_array (map (gibbs_200 sf nonzero) pts) mask)
               else if ns = 0 \<and> nt = 2 \<and> npr = 0 then Inr (ma_array (map (gibbs_020 sf nonzero) pts) mask)
               else if ns = 0 \<and> nt = 0 \<and> npr = 2 then Inr (ma_array (map (gibbs_002 sf nonzero) pts) mask)
               else Inl (NameError ''Wrong Combination of order/variables'')))"
section \<open>Helper polynomials\<close>

subsection \<open>Elementwise operations on masked arrays\<close>

text \<open>
  The result of an arithmetic operation on masked arrays is masked wherever an operand is.
  \<open>ma_zip\<close> pairs the operands up and \<open>ma_map\<close> applies the expression to the pairs.
\<close>

definition ma_map :: "('a \<Rightarrow> 'b) \<Rightarrow> 'a option list \<Rightarrow> 'b option list" where
  "ma_map f a = map (map_option f) a"

definition ma_zip :: "'a option list \<Rightarrow> 'b option list \<Rightarrow> ('a \<times> 'b) option list" where
  "ma_zip a b = map2 (\<lambda>u v. case u of None \<Rightarrow> None | Some x \<Rightarrow> map_option (Pair x) v) a b"

definition ma_sub :: "marr \<Rightarrow> marr \<Rightarrow> marr" where
  "ma_sub a b = ma_map (\<lambda>(x, y). x - y) (ma_zip a b)"

text \<open>
  Division of masked arrays is a domained operation: \<^verbatim>\<open>numpy.ma\<close> masks the result where
  \<^verbatim>\<open>abs(a) * tolerance >= abs(b)\<close>, with \<^verbatim>\<open>tolerance = np.finfo(float).tiny\<close>, the
  smallest positive normal double.
\<close>

definition ma_tiny :: real where
  "ma_tiny = 1 / 2 ^ 1022"

definition domain_safe_divide :: "real \<Rightarrow> real \<Rightarrow> bool" where
  "domain_safe_divide a b = (\<bar>a\<bar> * ma_tiny \<ge> \<bar>b\<bar>)"

definition true_divide :: "marr \<Rightarrow> marr \<Rightarrow> marr" where
  "true_divide a b =
    map (\<lambda>w. case w of None \<Rightarrow> None
              | Some (x, y) \<Rightarrow> if domain_safe_divide x y then None else Some (x / y))
      (ma_zip a b)"

text \<open>A Python float that meets an array is broadcast to the shape of the array.\<close>

definition ma_scalar :: "'a list \<Rightarrow> real \<Rightarrow> marr" where
  "ma_scalar a c = replicate (length a) (Some c)"

text \<open>
  \<^verbatim>\<open>np.ma.array(data, mask=mask, copy=False)\<close> on data that may hold NaN: an entry is
  undefined when it is masked or not a number.
\<close>

definition ma_array_nan :: "marr \<Rightarrow> bool list \<Rightarrow> marr" where
  "ma_array_nan d m = map2 (\<lambda>v b. if b then None else v) d m"

subsection \<open>\<^verbatim>\<open>strip_mask\<close>\<close>

text \<open>
  \<^verbatim>\<open>SA[SA < 0] = np.ma.masked\<close> and \<^verbatim>\<open>SA[SA < 0] = 0\<close>. A masked entry carries no data
  in this model, so neither statement changes it.
\<close>

definition mask_negative :: "marr \<Rightarrow> marr" where
  "mask_negative SA = map (\<lambda>v. case v of None \<Rightarrow> None | Some r \<Rightarrow> if r < 0 then None else Some r) SA"

definition clamp_negative :: "marr \<Rightarrow> marr" where
  "clamp_negative SA = map (\<lambda>v. case v of None \<Rightarrow> None | Some r \<Rightarrow> if r < 0 then Some 0 else Some r) SA"

text \<open>
  \<^verbatim>\<open>strip_mask(*args)\<close> for array arguments (\<^verbatim>\<open>SA.shape\<close> is truthy for every
  one-dimensional array). \<^verbatim>\<open>np.ma.asarray(SA)\<close> is a view that shares the mask array of
  \<^verbatim>\<open>args[0]\<close>, so the entries masked by \<^verbatim>\<open>SA[SA < 0] = np.ma.masked\<close> are part of
  \<^verbatim>\<open>np.ma.getmask(args[0])\<close> when the loop joins the masks. The stripped arguments are
  filled with 0.
\<close>

definition strip_mask2 :: "marr \<Rightarrow> marr \<Rightarrow> real list \<times> real list \<times> bool list" where
  "strip_mask2 SA0 pt0 =
    (let mask0 = getmaskarray pt0;
         SA = mask_negative SA0;
         mask = mask_or mask0 (getmaskarray SA)
     in (filled SA 0, filled pt0 0, mask))"

definition strip_mask3 :: "marr \<Rightarrow> marr \<Rightarrow> marr \<Rightarrow> real list \<times> real list \<times> real list \<times> bool list" where
  "strip_mask3 SA0 t0 p0 =
    (let mask0 = getmaskarray p0;
         SA = mask_negative SA0;
         mask = mask_or (mask_or mask0 (getmaskarray SA)) (getmaskarray t0)
     in (filled SA 0, filled t0 0, filled p0 0, mask))"

subsection \<open>Entropy part and second temperature derivative\<close>

fun entropy_part_elem :: "real \<Rightarrow> real \<times> real \<times> real \<Rightarrow> real" where
  "entropy_part_elem sf (SA, t, p) =
    (let x2 = sf * SA; x = sqrt x2; y = t * 0.025; z = p * 0.0001;
         g03 = entropy_part_g03 y z;
         g08 = entropy_part_g08 x2 x y z
     in - (g03 + g08) * 0.025)"

definition entropy_part :: "constants \<Rightarrow> marr \<Rightarrow> marr \<Rightarrow> marr \<Rightarrow> marr" where
  "entropy_part cte SA0 t0 p0 =
    (case strip_mask3 SA0 t0 p0 of
       (SA, t, p, msk) \<Rightarrow> ma_array (map (entropy_part_elem (sfac cte)) (zip SA (zip t p))) msk)"

fun gibbs_pt0_pt0_elem :: "real \<Rightarrow> real \<times> real \<Rightarrow> real" where
  "gibbs_pt0_pt0_elem sf (SA, pt0) =
    (let x2 = sf * SA; x = sqrt x2; y = pt0 * 0.025;
         g03 = gibbs_pt0_pt0_g03 y;
         g08 = gibbs_pt0_pt0_g08 x2 x y
     in (g03 + g08) * 0.000625)"

definition gibbs_pt0_pt0 :: "constants \<Rightarrow> marr \<Rightarrow> marr \<Rightarrow> marr" where
  "gibbs_pt0_pt0 cte SA0 pt00 =
    (case strip_mask2 SA0 pt00 of
       (SA, pt0, msk) \<Rightarrow> ma_array (map (gibbs_pt0_pt0_elem (sfac cte)) (zip SA pt0)) msk)"

fun entropy_part_zerop_elem :: "real \<Rightarrow> real \<times> real \<Rightarrow> real" where
  "entropy_part_zerop_elem sf (SA, pt0) =
    (let x2 = sf * SA; x = sqrt x2; y = pt0 * 0.025;
         g03 = entropy_part_zerop_g03 y;
         g08 = entropy_part_zerop_g08 x2 x y
     in - (g03 + g08) * 0.025)"

definition entropy_part_zerop :: "constants \<Rightarrow> marr \<Rightarrow> marr \<Rightarrow> marr" where
  "entropy_part_zerop cte SA0 pt00 =
    (case strip_mask2 SA0 pt00 of
       (SA, pt0, msk) \<Rightarrow> ma_array (map (entropy_part_zerop_elem (sfac cte)) (zip SA pt0)) msk)"

subsection \<open>Potential enthalpy and Conservative Temperature\<close>

text \<open>
  \<^verbatim>\<open>pot_enthalpy_from_pt(SA, pt)\<close>; \<^verbatim>\<open>x = np.ma.sqrt(x2)\<close> masks the entries with
  \<open>x2 < 0\<close>.
\<close>

fun pot_enthalpy_elem :: "real \<Rightarrow> real \<times> real \<Rightarrow> real option" where
  "pot_enthalpy_elem sf (SA, pt) =
    (let x2 = sf * SA; y = pt * 0.025
     in if x2 < 0 then None else Some (pot_enthalpy_poly x2 (sqrt x2) y))"

definition pot_enthalpy_from_pt :: "constants \<Rightarrow> marr \<Rightarrow> marr \<Rightarrow> marr" where
  "pot_enthalpy_from_pt cte SA0 pt0 =
    (case strip_mask2 SA0 pt0 of
       (SA, pt, msk) \<Rightarrow> ma_array_nan (map (pot_enthalpy_elem (sfac cte)) (zip SA pt)) msk)"

text \<open>
  \<^verbatim>\<open>CT_from_pt(SA, pt)\<close> hands the stripped plain arrays to \<^verbatim>\<open>pot_enthalpy_from_pt\<close> and
  divides by the constant \<^verbatim>\<open>cte.cp0\<close>.
\<close>

definition CT_from_pt :: "constants \<Rightarrow> marr \<Rightarrow> marr \<Rightarrow> marr" where
  "CT_from_pt cte SA0 pt0 =
    (case strip_mask2 SA0 pt0 of
       (SA, pt, msk) \<Rightarrow>
         (let pot_enthalpy = pot_enthalpy_from_pt cte (map Some SA) (map Some pt);
              CT = ma_map (\<lambda>h. h / cp0 cte) pot_enthalpy
          in ma_array_nan CT msk))"

section \<open>Iterative temperature solvers\<close>

subsection \<open>Potential temperature at a reference pressure\<close>

text \<open>
  \<^verbatim>\<open>potential_t(SA, t, p, pr)\<close>. The loop \<^verbatim>\<open>for Number_of_iterations in range(0,2,1)\<close>
  carries \<open>pt\<close> and \<open>dentropy_dt\<close>.
\<close>

definition potential_t_estimate :: "real \<times> real \<times> real \<times> real \<Rightarrow> real" where
  "potential_t_estimate = (\<lambda>(t, p, pr, s1).
      t + (p - pr) * (0.00000865483913395442 - s1 * 0.00000141636299744881 - (p + pr) *
      0.00000000738286467135737 + t * (-0.00000838241357039698 + s1 *
      0.0000000283933368585534 + t * 0.0000000177803965218656 + (p + pr) *
      0.000000000171155619208233)))"

fun potential_t_loop ::
  "nat \<Rightarrow> constants \<Rightarrow> marr \<Rightarrow> marr \<Rightarrow> marr \<Rightarrow> marr \<times> marr \<Rightarrow> error + marr \<times> marr" where
  "potential_t_loop 0 cte SA pr true_entropy_part (pt, dentropy_dt) = Inr (pt, dentropy_dt)"
| "potential_t_loop (Suc n) cte SA pr true_entropy_part (pt, dentropy_dt) =
    (let pt_old = pt;
         dentropy = ma_sub (entropy_part cte SA pt_old pr) true_entropy_part;
         pt = ma_sub pt_old (true_divide dentropy dentropy_dt);
         ptm = ma_map (\<lambda>(a, b). 0.5 * (a + b)) (ma_zip pt pt_old)
     in case gibbs cte 0 2 0 SA ptm pr of
          Inl e \<Rightarrow> Inl e
        | Inr g \<Rightarrow>
            (let dentropy_dt = ma_map uminus g;
                 pt = ma_sub pt_old (true_divide dentropy dentropy_dt)
             in potential_t_loop n cte SA pr true_entropy_part (pt, dentropy_dt)))"

definition potential_t :: "constants \<Rightarrow> marr \<Rightarrow> marr \<Rightarrow> marr \<Rightarrow> marr \<Rightarrow> error + marr" where
  "potential_t cte SA0 t p pr =
    (let SA = clamp_negative SA0;
         s1 = true_divide (ma_map (\<lambda>s. s * 35) SA) (ma_scalar SA (SSO cte));
         pt = ma_map potential_t_estimate (ma_zip t (ma_zip p (ma_zip pr s1)));
         dentropy_dt = true_divide (ma_scalar SA (cp0 cte))
                         (ma_map (\<lambda>(pt, q). (Kelvin cte + pt) * (1 - 0.05 * (1 - q)))
                            (ma_zip pt (true_divide SA (ma_scalar SA (SSO cte)))));
         true_entropy_part = entropy_part cte SA t p
     in case potential_t_loop 2 cte SA pr true_entropy_part (pt, dentropy_dt) of
          Inl e \<Rightarrow> Inl e
        | Inr (pt, dentropy_dt) \<Rightarrow> Inr pt)"

subsection \<open>Temperature from entropy\<close>

text \<open>
  \<^verbatim>\<open>entropy_from_t(SA, t, t_type='pt')\<close>, the call that \<^verbatim>\<open>t_from_entropy\<close> makes. (The
  \<^verbatim>\<open>'CT'\<close> path goes through \<^verbatim>\<open>pt_from_CT\<close>, whose divisions of plain arrays can
  produce infinities; it is not part of this development.) The pressure argument is the
  scalar 0.
\<close>

definition entropy_from_t_pt :: "constants \<Rightarrow> marr \<Rightarrow> marr \<Rightarrow> error + marr" where
  "entropy_from_t_pt cte SA0 t =
    (let SA = clamp_negative SA0
     in case gibbs cte 0 1 0 SA t (ma_scalar SA 0) of
          Inl e \<Rightarrow> Inl e
        | Inr g \<Rightarrow> Inr (ma_map uminus g))"

text \<open>
  One pass of the loop of \<^verbatim>\<open>t_from_entropy\<close>. The pass assigns the half-way update to
  \<open>pt\<close>, the new Jacobian to \<open>dentropy_dt\<close> and the re-applied update to \<open>t\<close>; the
  triple holds the three variables after the pass.
\<close>

definition t_from_entropy_pass ::
  "constants \<Rightarrow> marr \<Rightarrow> marr \<Rightarrow> marr \<times> marr \<Rightarrow> error + marr \<times> marr \<times> marr" where
  "t_from_entropy_pass cte SA entropy = (\<lambda>(pt, dentropy_dt).
    (let pt_old = pt
     in case entropy_from_t_pt cte SA pt_old of
          Inl e \<Rightarrow> Inl e
        | Inr ent \<Rightarrow>
            (let dentropy = ma_sub ent entropy;
                 pt = ma_sub pt_old (true_divide dentropy dentropy_dt);
                 ptm = ma_map (\<lambda>(a, b). 0.5 * (a + b)) (ma_zip pt pt_old);
                 dentropy_dt = ma_map uminus (gibbs_pt0_pt0 cte SA ptm);
                 t = ma_sub pt_old (true_divide dentropy dentropy_dt)
             in Inr (pt, dentropy_dt, t))))"

text \<open>
  \<^verbatim>\<open>for Number_of_iterations in range(0,3)\<close>: the variable \<open>t\<close> is unbound before the
  first pass.
\<close>

fun t_from_entropy_loop ::
  "nat \<Rightarrow> constants \<Rightarrow> marr \<Rightarrow> marr \<Rightarrow> marr \<times> marr \<times> marr option \<Rightarrow> error + marr \<times> marr \<times> marr option" where
  "t_from_entropy_loop 0 cte SA entropy st = Inr st"
| "t_from_entropy_loop (Suc n) cte SA entropy (pt, dentropy_dt, t) =
    (case t_from_entropy_pass cte SA entropy (pt, dentropy_dt) of
       Inl e \<Rightarrow> Inl e
     | Inr (pt', dentropy_dt', t') \<Rightarrow> t_from_entropy_loop n cte SA entropy (pt', dentropy_dt', Some t'))"

definition t_from_entropy_init :: "constants \<Rightarrow> marr \<Rightarrow> marr \<Rightarrow> marr \<times> marr" where
  "t_from_entropy_init cte SA entropy =
    (let part1 = ma_map (\<lambda>q. 1 - q) (true_divide SA (ma_scalar SA (SSO cte)));
         part2 = ma_map (\<lambda>a. 1 - 0.05 * a) part1;
         ent_SA = ma_map (\<lambda>a. cp0 cte / Kelvin cte * a * (1 - 1.01 * a)) part1;
         c = true_divide (ma_map (\<lambda>(e, es, b). (e - es) * b) (ma_zip entropy (ma_zip ent_SA part2)))
               (ma_scalar SA (cp0 cte));
         pt = ma_map (\<lambda>c. Kelvin cte * (exp c - 1)) c;
         dentropy_dt = true_divide (ma_scalar SA (cp0 cte))
                         (ma_map (\<lambda>(pt, b). (Kelvin cte + pt) * b) (ma_zip pt part2))
     in (pt, dentropy_dt))"



section \<open>Practical Salinity from Preformed Salinity\<close>

subsection \<open>Boolean indexing and interpolation\<close>

text \<open>
  \<^verbatim>\<open>a[idx]\<close> and \<^verbatim>\<open>a[idx] = vs\<close> for a boolean array \<open>idx\<close>: the index has the length of
  the array, and the assignment takes one value for each \<open>True\<close> of the index (or a single
  value, which is repeated).
\<close>

definition getitem_bool :: "'a list \<Rightarrow> bool list \<Rightarrow> error + 'a list" where
  "getitem_bool a idx =
    (if length idx = length a then Inr (map fst (filter snd (zip a idx))) else Inl IndexError)"

fun put_bool :: "'a list \<Rightarrow> bool list \<Rightarrow> 'a list \<Rightarrow> 'a list" where
  "put_bool (a # as) (True # idx) (v # vs) = v # put_bool as idx vs"
| "put_bool (a # as) (False # idx) vs = a # put_bool as idx vs"
| "put_bool as idx vs = as"

definition setitem_bool :: "'a list \<Rightarrow> bool list \<Rightarrow> 'a list \<Rightarrow> error + 'a list" where
  "setitem_bool a idx vs =
    (let k = length (filter id idx)
     in if length idx \<noteq> length a then Inl IndexError
        else if length vs = k then Inr (put_bool a idx vs)
        else (case vs of
                [v] \<Rightarrow> Inr (put_bool a idx (replicate k v))
              | _ \<Rightarrow> Inl (ValueError ''shape mismatch: value array cannot be broadcast to indexing result'')))"

text \<open>
  \<^verbatim>\<open>np.interp(x, xp, fp)\<close> with the knots \<open>(xp[0], fp[0])\<close>, \<open>(xp[1], fp[1])\<close>, ...: linear
  between two knots, constant outside them.
\<close>

fun np_interp :: "real \<Rightarrow> real \<times> real \<Rightarrow> (real \<times> real) list \<Rightarrow> real" where
  "np_interp x (x0, f0) [] = f0"
| "np_interp x (x0, f0) ((x1, f1) # knots) =
    (if x \<le> x0 then f0
     else if x < x1 then f0 + (f1 - f0) / (x1 - x0) * (x - x0)
     else np_interp x (x1, f1) knots)"

subsection \<open>The Baltic Sea\<close>

text \<open>
  \<^verbatim>\<open>_SP_from_SA_Baltic(SA, lon, lat)\<close>: \<open>Inr None\<close> is the return value \<^verbatim>\<open>None\<close>. A
  comparison with a NaN is false.
\<close>

definition inds_baltic_of :: "marr \<Rightarrow> marr \<Rightarrow> bool list" where
  "inds_baltic_of lon lat =
    map2 (\<lambda>lo la. case (lo, la) of
                     (Some x, Some y) \<Rightarrow> 7 < x \<and> x < 45 \<and> 50 < y \<and> y < 69
                   | _ \<Rightarrow> False) lon lat"

definition inds_baltic1_of :: "marr \<Rightarrow> marr \<Rightarrow> marr \<Rightarrow> bool list" where
  "inds_baltic1_of xx_left lon xx_right =
    map (\<lambda>(l, x, r). case (l, x, r) of
                        (Some l, Some x, Some r) \<Rightarrow> l \<le> x \<and> x \<le> r
                      | _ \<Rightarrow> False) (zip xx_left (zip lon xx_right))"

definition SP_from_SA_Baltic :: "constants \<Rightarrow> marr \<Rightarrow> marr \<Rightarrow> marr \<Rightarrow> error + marr option" where
  "SP_from_SA_Baltic cte SA0 lon0 lat0 =
    (case broadcast_shape [length lon0, length lat0, length SA0] of
       Inl e \<Rightarrow> Inl e
     | Inr n \<Rightarrow>
        (let lon = broadcast_to n lon0; lat = broadcast_to n lat0; SA = broadcast_to n SA0;
             inds_baltic = inds_baltic_of lon lat
         in if length (filter id inds_baltic) = 0 then Inr None
            else
              (let SP_baltic = replicate n None
               in case getitem_bool lat inds_baltic of
                    Inl e \<Rightarrow> Inl e
                  | Inr lat_b \<Rightarrow>
                     (case getitem_bool lon inds_baltic of
                        Inl e \<Rightarrow> Inl e
                      | Inr lon_b \<Rightarrow>
                         (let xx_left = ma_map (\<lambda>y. np_interp y (50, 12.6) [(59, 7), (69, 26)]) lat_b;
                              xx_right = ma_map (\<lambda>y. np_interp y (50, 45) [(69, 26)]) lat_b;
                              inds_baltic1 = inds_baltic1_of xx_left lon_b xx_right
                          in if length (filter id inds_baltic1) = 0 then Inr None
                             else
                               (case getitem_bool inds_baltic inds_baltic1 of
                                  Inl e \<Rightarrow> Inl e
                                | Inr idx \<Rightarrow>
                                   (case getitem_bool SA idx of
                                      Inl e \<Rightarrow> Inl e
                                    | Inr SA_b \<Rightarrow>
                                       (case setitem_bool SP_baltic idx
                                               (ma_map (\<lambda>s. 35 / (SSO cte - 0.087) * (s - 0.087)) SA_b) of
                                          Inl e \<Rightarrow> Inl e
                                        | Inr SP_baltic \<Rightarrow> Inr (Some SP_baltic)))))))))"

subsection \<open>Name resolution\<close>

text \<open>
  The value of a Python name: a float array, a boolean array, or an object that is no
  array (a module, class or function). A name is looked up among the local variables of the
  running function and then among the names bound at the top level of the module, here
  \<^verbatim>\<open>gibbs.py\<close> in the order of the file. (No name of the builtins is read by the
  functions below.)
\<close>

datatype pyval = Array marr | BoolArray "bool list" | Object

definition module_names :: "string list" where
  "module_names =
   [''division'', ''np'', ''cte'', ''os'', ''match_args_return'', ''strip_mask'',
    ''Dict2Struc'', ''read_data'', ''_gibbs'', ''_entropy_part'', ''_gibbs_pt0_pt0'',
    ''_entropy_part_zerop'', ''_enthalpy_SSO_0_CT25'', ''_specvol_SSO_0_CT25'',
    ''_SP_from_SA_Baltic'', ''_SA_from_SP_Baltic'', ''_delta_SA'', ''_dsa_add_barrier'',
    ''_dsa_add_mean'', ''entropy'', ''rho'', ''cp'', ''helmholtz_energy'', ''internal_energy'',
    ''sound_speed'', ''adiabatic_lapse_rate'', ''chem_potential_relative'', ''specvol'',
    ''conservative_t'', ''potential_t'', ''enthalpy'', ''chem_potential_water'',
    ''chem_potential_salt'', ''isochoric_heat_cap'', ''kappa'', ''kappa_const_t'', ''pot_rho'',
    ''specvol_anom'', ''alpha_wrt_t'', ''alpha_wrt_CT'', ''alpha_wrt_pt'', ''beta_const_t'',
    ''beta_const_CT'', ''beta_const_pt'', ''osmotic_coefficient'', ''molality'',
    ''ionic_strength'', ''CT_from_pt'', ''pot_enthalpy_from_pt'', ''pt_from_CT'',
    ''t_from_CT'', ''pt0_from_t'', ''t_from_entropy'', ''entropy_from_t'', ''z_from_p'',
    ''p_from_z'', ''grav'', ''distance'', ''cndr_from_SP'', ''SP_from_cndr'', ''SA_from_SP'',
    ''SA_from_Sstar'', ''SP_from_SA'', ''Sstar_from_SA'', ''SP_from_Sstar'', ''Sstar_from_SP'',
    ''SA_Sstar_from_SP'', ''SA_from_rho'', ''Gibbs'']"

definition module_scope :: "string \<Rightarrow> pyval option" where
  "module_scope = map_of (map (\<lambda>n. (n, Object)) module_names)"

definition load_name :: "(string \<Rightarrow> pyval option) \<Rightarrow> string \<Rightarrow> error + pyval" where
  "load_name locals n =
    (case locals n of
       Some v \<Rightarrow> Inr v
     | None \<Rightarrow> (case module_scope n of Some v \<Rightarrow> Inr v | None \<Rightarrow> Inl (NameError n)))"

text \<open>Indexing by the value of a name: only a boolean array selects entries.\<close>

definition getitem :: "marr \<Rightarrow> pyval \<Rightarrow> error + marr" where
  "getitem a ix = (case ix of BoolArray idx \<Rightarrow> getitem_bool a idx | _ \<Rightarrow> Inl IndexError)"

definition setitem :: "marr \<Rightarrow> pyval \<Rightarrow> marr \<Rightarrow> error + marr" where
  "setitem a ix vs = (case ix of BoolArray idx \<Rightarrow> setitem_bool a idx vs | _ \<Rightarrow> Inl IndexError)"

subsection \<open>\<^verbatim>\<open>SP_from_Sstar\<close>\<close>

text \<open>
  \<^verbatim>\<open>SP_from_Sstar(Sstar, p, lon, lat)\<close>, on the arrays that the decorator hands over.
  \<^verbatim>\<open>_delta_SA\<close> interpolates in a data file that is read at run time; it is the parameter
  \<open>delta_SA\<close>. The assignment \<^verbatim>\<open>SP[indsbaltic] = SP_baltic[indsbaltic]\<close> evaluates its
  right-hand side first: the names \<^verbatim>\<open>SP_baltic\<close> and \<^verbatim>\<open>indsbaltic\<close> are loaded and
  the entries selected, then \<^verbatim>\<open>SP\<close> and \<^verbatim>\<open>indsbaltic\<close> are loaded and the entries stored.
\<close>

definition SP_from_Sstar ::
  "constants \<Rightarrow> (marr \<Rightarrow> marr \<Rightarrow> marr \<Rightarrow> error + marr) \<Rightarrow> marr \<Rightarrow> marr \<Rightarrow> marr \<Rightarrow> marr \<Rightarrow> error + marr" where
  "SP_from_Sstar cte delta_SA Sstar0 p0 lon0 lat0 =
    (case broadcast_shape [length lon0, length lat0, length p0, length Sstar0] of
       Inl e \<Rightarrow> Inl e
     | Inr n \<Rightarrow>
        (let lon = broadcast_to n lon0; lat = broadcast_to n lat0; p = broadcast_to n p0;
             Sstar = broadcast_to n Sstar0
         in case delta_SA p lon lat of
              Inl e \<Rightarrow> Inl e
            | Inr dSA0 \<Rightarrow>
               (case broadcast_shape [length Sstar, length dSA0] of
                  Inl e \<Rightarrow> Inl e
                | Inr m \<Rightarrow>
                   (let dSA = dSA0;
                        SP = ma_map (\<lambda>(s, d). 35 / SSO cte * (s + r1 cte * d))
                               (ma_zip (broadcast_to m Sstar) (broadcast_to m dSA))
                    in case SP_from_SA_Baltic cte Sstar lon lat of
                         Inl e \<Rightarrow> Inl e
                       | Inr None \<Rightarrow> Inr SP
                       | Inr (Some SP_baltic) \<Rightarrow>
                          (let locals = [''Sstar'' \<mapsto> Array Sstar, ''p'' \<mapsto> Array p,
                                         ''lon'' \<mapsto> Array lon, ''lat'' \<mapsto> Array lat,
                                         ''dSA'' \<mapsto> Array dSA, ''SP'' \<mapsto> Array SP,
                                         ''SP_baltic'' \<mapsto> Array SP_baltic]
                           in case load_name locals ''SP_baltic'' of
                                Inl e \<Rightarrow> Inl e
                              | Inr (Array b) \<Rightarrow>
                                 (case load_name locals ''indsbaltic'' of
                                    Inl e \<Rightarrow> Inl e
                                  | Inr ix \<Rightarrow>
                                     (case getitem b ix of
                                        Inl e \<Rightarrow> Inl e
                                      | Inr vs \<Rightarrow>
                                         (case load_name locals ''SP'' of
                                            Inl e \<Rightarrow> Inl e
                                          | Inr (Array a) \<Rightarrow>
                                             (case load_name locals ''indsbaltic'' of
                                                Inl e \<Rightarrow> Inl e
                                              | Inr ix' \<Rightarrow> setitem a ix' vs)
                                          | Inr _ \<Rightarrow> Inl IndexError)))
                              | Inr _ \<Rightarrow> Inl IndexError)))))"

section \<open>The rounding residue of the potential-enthalpy polynomial\<close>

text \<open>
  The literal polynomial of \<^verbatim>\<open>pot_enthalpy_from_pt\<close> collects the powers of \<open>x\<close> and \<open>y\<close> of
  \<^verbatim>\<open>_gibbs(0,0,0,SA,pt,0) - (273.15 + pt) * _gibbs(0,1,0,SA,pt,0)\<close> with coefficients
  rounded to double precision. \<open>pot_enthalpy_residue\<close> is what the rounding leaves: the
  engine expression minus the literal polynomial, coefficient by coefficient.
\<close>

definition pot_enthalpy_residue :: "real \<Rightarrow> real \<Rightarrow> real" where
  "pot_enthalpy_residue x y =
    0.000000000000000925 - 0.0000000000075 * y - 0.000000000000883625 * y ^ 2 +
    0.00000000000067 * y ^ 3 + 0.0000000000001467375 * y ^ 4 + 0.0000000000000252875 * y ^ 5
    - 0.0000000000000055875 * y ^ 6 - 0.00000000000001875 * x ^ 2 + 0.0000000000014025 * x ^
    2 * ln x - 0.00000000000163 * x ^ 2 * y - 0.00000000000026375 * x ^ 2 * y ^ 2 -
    0.0000000000001585 * x ^ 2 * y ^ 3 + 0.0000000000000922 * x ^ 2 * y ^ 4 +
    0.000000000000001225 * x ^ 2 * y ^ 5 + 0.000000000000003 * x ^ 2 * y ^ 6 +
    0.0000000000002575 * x ^ 3 + 0.0000000000000615 * x ^ 3 * y + 0.000000000000021875 * x ^
    3 * y ^ 2 + 0.000000000000000325 * x ^ 3 * y ^ 3 + 0.0000000000000006 * x ^ 3 * y ^ 4 -
    0.0000000000002175 * x ^ 4 - 0.00000000000001675 * x ^ 4 * y - 0.000000000000214175 * x
    ^ 4 * y ^ 2 - 0.000000000000058 * x ^ 4 * y ^ 3 - 0.00000000000000775 * x ^ 4 * y ^ 4 +
    0.000000000000002 * x ^ 4 * y ^ 5 + 0.00000000000016 * x ^ 5 + 0.000000000000020625 * x
    ^ 6"

section \<open>Reading the engine entry by entry\<close>

text \<open>
  Two derived notions for the proofs. \<open>gibbs_select\<close> is the branch that \<^verbatim>\<open>_gibbs\<close> takes
  for a derivative order: the function applied to every position, \<open>None\<close> for a branch
  that sets \<^verbatim>\<open>all_masked\<close>, or the error. \<open>gibbs_entry\<close> is the entry that the engine then
  returns at a position with inputs \<open>SA\<close>, \<open>t\<close>, \<open>p\<close>. Lemma \<open>gibbs_factored\<close> proves that
  \<open>gibbs\<close> is made of the two on arguments of one length.
\<close>

definition gibbs_select :: "real \<Rightarrow> int \<Rightarrow> int \<Rightarrow> int \<Rightarrow> bool \<Rightarrow> error + (real \<times> real \<times> real \<Rightarrow> real) option" where
  "gibbs_select sf ns nt npr nz =
    (if ns = 0 \<and> nt = 0 \<and> npr = 0 then Inr (Some (gibbs_000 sf nz))
     else if ns = 1 \<and> nt = 0 \<and> npr = 0 then (if nz then Inr (Some (gibbs_100 sf)) else Inr None)
     else if ns = 0 \<and> nt = 1 \<and> npr = 0 then Inr (Some (gibbs_010 sf nz))
     else if ns = 0 \<and> nt = 0 \<and> npr = 1 then Inr (Some (gibbs_001 sf nz))
     else if ns = 1 \<and> nt = 1 \<and> npr = 0 then (if nz then Inr (Some (gibbs_110 sf)) else Inr None)
     else if ns = 1 \<and> nt = 0 \<and> npr = 1 then Inr (Some (gibbs_101 sf))
     else if ns = 0 \<and> nt = 1 \<and> npr = 1 then Inr (Some (gibbs_011 sf nz))
     else if ns = 2 \<and> nt = 0 \<and> npr = 0 then Inr (Some (gibbs_200 sf nz))
     else if ns = 0 \<and> nt = 2 \<and> npr = 0 then Inr (Some (gibbs_020 sf nz))
     else if ns = 0 \<and> nt = 0 \<and> npr = 2 then Inr (Some (gibbs_002 sf nz))
     else Inl (NameError ''Wrong Combination of order/variables''))"

definition gibbs_entry :: "bool \<Rightarrow> (real \<times> real \<times> real \<Rightarrow> real) option \<Rightarrow> real option \<Rightarrow> real option \<Rightarrow> real option \<Rightarrow> real option" where
  "gibbs_entry nz f SA t p =
    (case f of None \<Rightarrow> None
     | Some g \<Rightarrow>
        (case SA of None \<Rightarrow> None
         | Some s \<Rightarrow> if s < 0 \<or> (nz \<and> s \<le> 0) \<or> t = None \<or> p = None then None
                     else Some (g (s, the t, the p))))"

section \<open>Properties of the engine\<close>

subsection \<open>The engine entry by entry\<close>

lemma nonzero_SA_iff:
  "nonzero_SA SA \<longleftrightarrow> (\<forall>v\<in>set SA. v = None) \<or> (\<exists>s>0. Some s \<in> set SA)"
proof -
  have one: "length SA = 1 \<Longrightarrow> SA = [SA ! 0]"
    by (cases SA) auto
  have a: "ma_all (map (map_option (\<lambda>s. s \<le> 0)) SA) \<longleftrightarrow>
      (\<exists>v\<in>set SA. v \<noteq> None) \<and> (\<forall>s. Some s \<in> set SA \<longrightarrow> s \<le> 0)"
    unfolding ma_all_def list_all_iff by (force simp: map_option_case split: option.splits)
  have b: "length SA = 1 \<and> (case SA ! 0 of None \<Rightarrow> False | Some s \<Rightarrow> s \<le> 0)
      \<Longrightarrow> ma_all (map (map_option (\<lambda>s. s \<le> 0)) SA)"
  proof -
    assume h: "length SA = 1 \<and> (case SA ! 0 of None \<Rightarrow> False | Some s \<Rightarrow> s \<le> 0)"
    then obtain s where "SA = [Some s]" "s \<le> 0"
      using one by (cases "SA ! 0") auto
    then show ?thesis by (simp add: ma_all_def)
  qed
  show ?thesis
    unfolding nonzero_SA_def using a b by (auto simp: not_le) 
qed


lemma gibbs_entries:
  "ma_array (map g (zip (filled (if nz then masked_less_equal SA 0 else SA) 0)
                        (zip (filled t 20) (filled p 10))))
     (mask_or (mask_or (mask_or (getmaskarray (if nz then masked_less_equal SA 0 else SA))
                 (getmaskarray t)) (getmaskarray p))
        (map (\<lambda>s. s < 0) (filled (if nz then masked_less_equal SA 0 else SA) 0)))
   = map (\<lambda>(s, t, p). gibbs_entry nz (Some g) s t p) (zip SA (zip t p))"
  (is "?l = ?r")
proof (rule nth_equalityI)
  show len: "length ?l = length ?r"
    by (simp add: ma_array_def filled_def mask_or_def getmaskarray_def masked_less_equal_def)
  fix i assume "i < length ?l"
  then have i: "i < length SA" "i < length t" "i < length p"
    using len by simp_all
  show "?l ! i = ?r ! i"
  proof (cases nz)
    case True
    then show ?thesis using i
      by (simp add: ma_array_def filled_def mask_or_def getmaskarray_def masked_less_equal_def
            gibbs_entry_def split: option.splits)
  next
    case False
    then show ?thesis using i
      by (simp add: ma_array_def filled_def mask_or_def getmaskarray_def
            gibbs_entry_def split: option.splits)
  qed
qed

lemma gibbs_all_masked:
  "replicate (length (zip SA (zip t p))) None = map (\<lambda>(s, t, p). gibbs_entry nz None s t p) (zip SA (zip t p))"
  by (rule nth_equalityI) (simp_all add: gibbs_entry_def case_prod_unfold)


lemma broadcast_shape_conformed:
  "length t = length SA \<Longrightarrow> length p = length SA \<Longrightarrow>
     broadcast_shape [length SA, length t, length p] = Inr (length SA)"
  by (simp add: broadcast_shape_def)

lemma broadcast_to_conformed: "length a = n \<Longrightarrow> broadcast_to n a = a"
  by (auto simp: broadcast_to_def split: list.splits)

lemma length_filled: "length (filled a c) = length a"
  by (simp add: filled_def)

lemma length_getmaskarray: "length (getmaskarray a) = length a"
  by (simp add: getmaskarray_def)

lemma length_masked_less_equal_if:
  "length (if b then masked_less_equal a c else a) = length a"
  by (simp add: masked_less_equal_def)

text \<open>Shapes that cannot be broadcast end the call before the order is looked at.\<close>

lemma gibbs_shape_mismatch:
  "broadcast_shape [length SA, length t, length p] = Inl e \<Longrightarrow> gibbs cte ns nt npr SA t p = Inl e"
  by (simp add: gibbs_def Let_def)

lemma gibbs_broadcast_select:
  assumes "broadcast_shape [length SA, length t, length p] = Inr n"
  shows "isl (gibbs cte ns nt npr SA t p) = isl (gibbs_select (sfac cte) ns nt npr (nonzero_SA SA))"
    and "gibbs cte ns nt npr SA t p = Inl e \<longleftrightarrow> gibbs_select (sfac cte) ns nt npr (nonzero_SA SA) = Inl e"
  using assms by (simp_all add: gibbs_def gibbs_select_def Let_def)

lemma gibbs_factored:
  assumes conf: "length t = length SA" "length p = length SA"
  shows "gibbs cte ns nt npr SA t p =
     (case gibbs_select (sfac cte) ns nt npr (nonzero_SA SA) of
        Inl e \<Rightarrow> Inl e
      | Inr f \<Rightarrow> Inr (map (\<lambda>(s, t, p). gibbs_entry (nonzero_SA SA) f s t p) (zip SA (zip t p))))"
proof -
  define nz where "nz = nonzero_SA SA"
  define SA1 where "SA1 = (if nz then masked_less_equal SA 0 else SA)"
  define pts where "pts = zip (filled SA1 0) (zip (filled t 20) (filled p 10))"
  define msk where "msk = mask_or (mask_or (mask_or (getmaskarray SA1) (getmaskarray t)) (getmaskarray p))
                  (map (\<lambda>s. s < 0) (filled SA1 0))"
  have l1: "length SA1 = length SA"
    unfolding SA1_def by (rule length_masked_less_equal_if)
  have bt: "broadcast_to (length SA) (filled SA1 0) = filled SA1 0"
    "broadcast_to (length SA) (filled t 20) = filled t 20"
    "broadcast_to (length SA) (filled p 10) = filled p 10"
    "broadcast_to (length SA) (getmaskarray SA1) = getmaskarray SA1"
    "broadcast_to (length SA) (getmaskarray t) = getmaskarray t"
    "broadcast_to (length SA) (getmaskarray p) = getmaskarray p"
    using conf l1 by (simp_all add: broadcast_to_conformed length_filled length_getmaskarray)
  have 1: "gibbs cte ns nt npr SA t p =
     (case gibbs_select (sfac cte) ns nt npr nz of
        Inl e \<Rightarrow> Inl e
      | Inr None \<Rightarrow> Inr (replicate (length pts) None)
      | Inr (Some g) \<Rightarrow> Inr (ma_array (map g pts) msk))"
    unfolding gibbs_def gibbs_select_def Let_def broadcast_shape_conformed[OF conf] sum.case
      nz_def[symmetric] SA1_def[symmetric] bt pts_def[symmetric] msk_def[symmetric]
    by simp
  have 2: "ma_array (map g pts) msk = map (\<lambda>(s, t, p). gibbs_entry nz (Some g) s t p) (zip SA (zip t p))" for g
    unfolding pts_def msk_def SA1_def by (rule gibbs_entries)
  have 3: "replicate (length pts) None = map (\<lambda>(s, t, p). gibbs_entry nz None s t p) (zip SA (zip t p))"
    unfolding pts_def using l1
    by (intro nth_equalityI) (simp_all add: gibbs_entry_def case_prod_unfold filled_def)
  show ?thesis
    unfolding 1 nz_def[symmetric]
    by (simp add: 2 3 split: sum.splits option.splits)
qed

lemma gibbs_select_Inl:
  "gibbs_select sf ns nt npr nz = Inl e \<Longrightarrow> e = NameError ''Wrong Combination of order/variables''"
  unfolding gibbs_select_def by (simp split: if_split_asm)

lemma gibbs_select_isl:
  "isl (gibbs_select sf ns nt npr nz) \<longleftrightarrow>
     \<not> (ns = 0 \<and> nt = 0 \<and> npr = 0 \<or> ns = 1 \<and> nt = 0 \<and> npr = 0 \<or> ns = 0 \<and> nt = 1 \<and> npr = 0 \<or>
        ns = 0 \<and> nt = 0 \<and> npr = 1 \<or> ns = 1 \<and> nt = 1 \<and> npr = 0 \<or> ns = 1 \<and> nt = 0 \<and> npr = 1 \<or>
        ns = 0 \<and> nt = 1 \<and> npr = 1 \<or> ns = 2 \<and> nt = 0 \<and> npr = 0 \<or> ns = 0 \<and> nt = 2 \<and> npr = 0 \<or>
        ns = 0 \<and> nt = 0 \<and> npr = 2)"
  unfolding gibbs_select_def by simp


lemma gibbs_nth:
  assumes conf: "length t = length SA" "length p = length SA"
    and "gibbs cte ns nt npr SA t p = Inr out" "i < length SA"
  shows "\<exists>f. gibbs_select (sfac cte) ns nt npr (nonzero_SA SA) = Inr f \<and>
             out ! i = gibbs_entry (nonzero_SA SA) f (SA ! i) (t ! i) (p ! i)"
proof (cases "gibbs_select (sfac cte) ns nt npr (nonzero_SA SA)")
  case (Inl e)
  then show ?thesis using assms(3) by (simp add: gibbs_factored[OF conf])
next
  case (Inr f)
  then have "out = map (\<lambda>(s, t, p). gibbs_entry (nonzero_SA SA) f s t p) (zip SA (zip t p))"
    using assms(3) by (simp add: gibbs_factored[OF conf])
  then show ?thesis using Inr assms(4) conf by simp
qed

lemma gibbs_length:
  assumes conf: "length t = length SA" "length p = length SA"
    and "gibbs cte ns nt npr SA t p = Inr out"
  shows "length out = length SA"
proof (cases "gibbs_select (sfac cte) ns nt npr (nonzero_SA SA)")
  case (Inl e)
  then show ?thesis using assms(3) by (simp add: gibbs_factored[OF conf])
next
  case (Inr f)
  then have "out = map (\<lambda>(s, t, p). gibbs_entry (nonzero_SA SA) f s t p) (zip SA (zip t p))"
    using assms(3) by (simp add: gibbs_factored[OF conf])
  then show ?thesis using conf by simp
qed

subsection \<open>Unsupported derivative orders\<close>

text \<open>
  C2. On a batch whose three arguments can be broadcast to one shape (in particular on
  arguments of one length), \<^verbatim>\<open>_gibbs\<close> raises the error
  \<^verbatim>\<open>NameError('Wrong Combination of order/variables')\<close> exactly when the triple
  \<open>(ns, nt, npr)\<close> is not one of the ten listed combinations, and it returns a result
  exactly when the triple is one of them.
\<close>

theorem gibbs_wrong_combination_iff:
  assumes shape: "broadcast_shape [length SA, length t, length p] = Inr n"
  shows "(gibbs cte ns nt npr SA t p = Inl (NameError ''Wrong Combination of order/variables'')
      \<longleftrightarrow> (ns, nt, npr) \<notin> {(0,0,0), (1,0,0), (0,1,0), (0,0,1), (1,1,0), (1,0,1), (0,1,1), (2,0,0), (0,2,0), (0,0,2)})
   \<and> ((\<exists>out. gibbs cte ns nt npr SA t p = Inr out)
      \<longleftrightarrow> (ns, nt, npr) \<in> {(0,0,0), (1,0,0), (0,1,0), (0,0,1), (1,1,0), (1,0,1), (0,1,1), (2,0,0), (0,2,0), (0,0,2)})"
proof -
  let ?sel = "gibbs_select (sfac cte) ns nt npr (nonzero_SA SA)"
  let ?g = "gibbs cte ns nt npr SA t p"
  have mem: "(ns, nt, npr) \<in> {(0,0,0), (1,0,0), (0,1,0), (0,0,1), (1,1,0), (1,0,1), (0,1,1), (2,0,0), (0,2,0), (0,0,2)}
      \<longleftrightarrow> \<not> isl ?sel"
    unfolding gibbs_select_isl by (simp only: insert_iff empty_iff prod.inject simp_thms)
  note sel = gibbs_broadcast_select[OF shape, of cte ns nt npr]
  show ?thesis
  proof (cases ?sel)
    case (Inl e)
    then have e: "e = NameError ''Wrong Combination of order/variables''"
      by (rule gibbs_select_Inl)
    have "?g = Inl e"
      using Inl sel(2) by simp
    then show ?thesis using Inl mem e by simp
  next
    case (Inr f)
    then have ns: "\<not> isl ?g"
      using sel(1) by simp
    then obtain out where out: "?g = Inr out"
      by (cases ?g) simp_all
    then show ?thesis using Inr mem by simp
  qed
qed

theorem gibbs_wrong_combination_witness:
  "gibbs cte_teos10 3 0 0 [Some 35, Some 34] [Some 10] [Some 100, Some 200]
      = Inl (NameError ''Wrong Combination of order/variables'')
   \<and> gibbs cte_teos10 1 1 1 [Some 35] [Some 10] [Some 100] = Inl (NameError ''Wrong Combination of order/variables'')
   \<and> (\<exists>out. gibbs cte_teos10 0 1 1 [Some 35, Some 34] [Some 10] [Some 100, Some 200] = Inr out)"
proof -
  have a: "((3::int), (0::int), (0::int)) \<notin> {(0,0,0), (1,0,0), (0,1,0), (0,0,1), (1,1,0), (1,0,1), (0,1,1), (2,0,0), (0,2,0), (0,0,2)}"
    by simp
  have b: "((1::int), (1::int), (1::int)) \<notin> {(0,0,0), (1,0,0), (0,1,0), (0,0,1), (1,1,0), (1,0,1), (0,1,1), (2,0,0), (0,2,0), (0,0,2)}"
    by simp
  have c: "((0::int), (1::int), (1::int)) \<in> {(0,0,0), (1,0,0), (0,1,0), (0,0,1), (1,1,0), (1,0,1), (0,1,1), (2,0,0), (0,2,0), (0,0,2)}"
    by simp
  have s2: "broadcast_shape [length [Some 35, Some (34::real)], length [Some (10::real)],
      length [Some 100, Some (200::real)]] = Inr 2"
    by (simp add: broadcast_shape_def)
  have s1: "broadcast_shape [length [Some (35::real)], length [Some (10::real)], length [Some (100::real)]] = Inr 1"
    by (simp add: broadcast_shape_def)
  show ?thesis
    by (intro conjI
      gibbs_wrong_combination_iff[OF s2, of cte_teos10 3 0 0, THEN conjunct1, THEN iffD2, OF a]
      gibbs_wrong_combination_iff[OF s1, of cte_teos10 1 1 1, THEN conjunct1, THEN iffD2, OF b]
      gibbs_wrong_combination_iff[OF s2, of cte_teos10 0 1 1, THEN conjunct2, THEN iffD2, OF c])
qed

text \<open>
  Arguments of the lengths 2, 3 and 2 cannot be broadcast: the call ends in the
  \<^verbatim>\<open>ValueError\<close> of \<^verbatim>\<open>np.broadcast_arrays\<close>, for a listed order as for any other.
\<close>

lemma gibbs_shape_mismatch_example:
  "gibbs cte ns nt npr [Some 35, Some 34] [Some 10, Some 11, Some 12] [Some 100, Some 200]
     = Inl (ValueError ''shape mismatch: objects cannot be broadcast to a single shape'')"
  by (rule gibbs_shape_mismatch) (simp add: broadcast_shape_def)

subsection \<open>Entries at non-positive salinity\<close>

lemma gibbs_Inr_map:
  assumes "length t = length SA" "length p = length SA"
    and "gibbs_select (sfac cte) ns nt npr (nonzero_SA SA) = Inr f"
  shows "gibbs cte ns nt npr SA t p =
           Inr (map (\<lambda>(s, t, p). gibbs_entry (nonzero_SA SA) f s t p) (zip SA (zip t p)))"
  using assms by (simp add: gibbs_factored)


subsection \<open>Salinity-derivative branches at non-positive salinity\<close>


lemmas gibbs_eval_defs = gibbs_def broadcast_shape_def broadcast_to_def nonzero_SA_def ma_all_def
  filled_def getmaskarray_def mask_or_def ma_array_def masked_less_equal_def cte_teos10_def



subsection \<open>The order \<open>(0,1,0)\<close> without the salinity-dependent branch\<close>

text \<open>
  C3. When \<open>SA \<le> 0\<close> throughout the batch, the branch \<open>(0,1,0)\<close> skips \<open>g08\<close> and
  should return \<open>0.025 * g03\<close>, the value of \<^verbatim>\<open>(g03 + g08) * 0.025\<close> at \<open>g08 = 0\<close>. The
  source returns \<^verbatim>\<open>gibbs = g03\<close> instead: at \<open>SA = [0]\<close>, \<open>t = [0]\<close>, \<open>p = [0]\<close> the
  result is \<open>5.90578347909402\<close>, not \<open>0.025 * 5.90578347909402\<close>.
\<close>

theorem gibbs_010_zero_salinity_unscaled:
  "gibbs cte_teos10 0 1 0 [Some 0] [Some 0] [Some 0] = Inr [Some (g03_010 0 0)]
   \<and> g03_010 0 0 = 5.90578347909402
   \<and> g03_010 0 0 \<noteq> 0.025 * g03_010 0 0"
proof -
  have v: "g03_010 0 0 = 5.90578347909402"
    by (simp add: g03_010_def)
  have "gibbs cte_teos10 0 1 0 [Some 0] [Some 0] [Some 0] = Inr [Some (g03_010 0 0)]"
    by (simp add: gibbs_eval_defs)
  then show ?thesis unfolding v by simp
qed

lemma gibbs_entry_masked:
  "SA = None \<or> (\<exists>s<0. SA = Some s) \<Longrightarrow> gibbs_entry nz f SA t p = None"
  by (auto simp: gibbs_entry_def split: option.splits)

lemma nonzero_SA_single:
  "nonzero_SA [v] \<longleftrightarrow> v = None \<or> (\<exists>s>0. v = Some s)"
  unfolding nonzero_SA_iff by auto

lemma nonzero_SA_nth:
  assumes "i < length SA" "SA ! i = Some s"
  shows "nonzero_SA SA \<longleftrightarrow> (\<exists>j<length SA. \<exists>v>0. SA ! j = Some v)"
proof -
  have "\<not> (\<forall>v\<in>set SA. v = None)"
    using assms by (metis nth_mem option.distinct(1))
  then show ?thesis
    unfolding nonzero_SA_iff by (auto simp: in_set_conv_nth)
qed

lemma gibbs_single_entry:
  assumes conf: "length t = length SA" "length p = length SA" and i: "i < length SA"
    and z: "SA ! i = Some 0 \<longrightarrow> \<not> (\<exists>j<length SA. \<exists>v>0. SA ! j = Some v)"
  shows "gibbs cte ns nt npr [SA ! i] [t ! i] [p ! i]
           = map_sum id (\<lambda>out. [out ! i]) (gibbs cte ns nt npr SA t p)"
proof -
  let ?nz = "nonzero_SA SA" and ?nz1 = "nonzero_SA [SA ! i]"
  let ?sel = "gibbs_select (sfac cte) ns nt npr"
  show ?thesis
  proof (cases "?sel ?nz")
    case (Inl e)
    then have e: "e = NameError ''Wrong Combination of order/variables''"
      by (rule gibbs_select_Inl)
    have "isl (?sel ?nz1)"
      using Inl gibbs_select_isl[of "sfac cte" ns nt npr ?nz] gibbs_select_isl[of "sfac cte" ns nt npr ?nz1]
      by simp
    then obtain e' where e': "?sel ?nz1 = Inl e'"
      by (cases "?sel ?nz1") auto
    then have "e' = e" using e gibbs_select_Inl[OF e'] by simp
    then show ?thesis using Inl e'
      by (simp add: gibbs_factored[OF conf] gibbs_factored[of "[t ! i]" "[SA ! i]" "[p ! i]"])
  next
    case (Inr f)
    have "\<not> isl (?sel ?nz1)"
      using Inr gibbs_select_isl[of "sfac cte" ns nt npr ?nz] gibbs_select_isl[of "sfac cte" ns nt npr ?nz1]
      by simp
    then obtain f' where f': "?sel ?nz1 = Inr f'"
      by (cases "?sel ?nz1") auto
    have ent: "gibbs_entry ?nz1 f' (SA ! i) (t ! i) (p ! i) = gibbs_entry ?nz f (SA ! i) (t ! i) (p ! i)"
    proof (cases "SA ! i = None \<or> (\<exists>s<0. SA ! i = Some s)")
      case True
      then show ?thesis by (simp only: gibbs_entry_masked)
    next
      case False
      then obtain s where s: "SA ! i = Some s" "0 \<le> s"
        by (cases "SA ! i") (auto simp: not_less)
      have "?nz = ?nz1"
      proof (cases "s = 0")
        case True
        then show ?thesis
          using z s(1) nonzero_SA_nth[OF i s(1)] by (simp add: nonzero_SA_single)
      next
        case False
        with s have "0 < s" by simp
        then show ?thesis
          using i s(1) nonzero_SA_nth[OF i s(1)] by (auto simp: nonzero_SA_single)
      qed
      then show ?thesis using Inr f' by simp
    qed
    have one: "gibbs cte ns nt npr [SA ! i] [t ! i] [p ! i]
        = Inr (map (\<lambda>(s, t, p). gibbs_entry ?nz1 f' s t p) (zip [SA ! i] (zip [t ! i] [p ! i])))"
      by (rule gibbs_Inr_map[OF _ _ f']) simp_all
    show ?thesis
      using conf i ent by (simp add: gibbs_Inr_map[OF conf Inr] one)
  qed
qed

lemma strip_helpers_single_entry:
  assumes conf: "length t = length SA" "length p = length SA" and i: "i < length SA"
  shows "entropy_part cte [SA ! i] [t ! i] [p ! i] = [entropy_part cte SA t p ! i]"
    and "gibbs_pt0_pt0 cte [SA ! i] [t ! i] = [gibbs_pt0_pt0 cte SA t ! i]"
    and "entropy_part_zerop cte [SA ! i] [t ! i] = [entropy_part_zerop cte SA t ! i]"
    and "pot_enthalpy_from_pt cte [SA ! i] [t ! i] = [pot_enthalpy_from_pt cte SA t ! i]"
    and "CT_from_pt cte [SA ! i] [t ! i] = [CT_from_pt cte SA t ! i]"
  using assms
  by (simp_all add: entropy_part_def gibbs_pt0_pt0_def entropy_part_zerop_def pot_enthalpy_from_pt_def
        CT_from_pt_def strip_mask2_def strip_mask3_def Let_def ma_array_def ma_array_nan_def ma_map_def
        mask_or_def getmaskarray_def mask_negative_def filled_def)

lemma gibbs_isl:
  assumes "length t = length SA" "length p = length SA"
  shows "isl (gibbs cte ns nt npr SA t p) = isl (gibbs_select (sfac cte) ns nt npr (nonzero_SA SA))"
  by (cases "gibbs_select (sfac cte) ns nt npr (nonzero_SA SA)") (simp_all add: gibbs_factored[OF assms])

subsection \<open>Elementwise independence\<close>

text \<open>
  Lemma \<open>gibbs_single_entry\<close> above: on a conformed batch the entry of \<^verbatim>\<open>_gibbs\<close> at an
  element is the result of the call on that element alone, unless the element has \<open>SA = 0\<close>
  and shares the batch with a positive salinity. In that case the entry is undefined, for
  every order that returns a result:
\<close>

lemma gibbs_zero_salinity_masked:
  assumes conf: "length t = length SA" "length p = length SA" and i: "i < length SA"
    and s: "SA ! i = Some 0"
    and pos: "\<exists>j<length SA. \<exists>v>0. SA ! j = Some v"
    and g: "gibbs cte ns nt npr SA t p = Inr out"
  shows "out ! i = None"
proof -
  have nz: "nonzero_SA SA"
    using nonzero_SA_nth[OF i s] pos by simp
  from gibbs_nth[OF conf g i] obtain f where
    "out ! i = gibbs_entry (nonzero_SA SA) f (SA ! i) (t ! i) (p ! i)" by auto
  then show ?thesis
    using nz s by (simp add: gibbs_entry_def split: option.splits)
qed

text \<open>
  C4. The entry of \<^verbatim>\<open>_gibbs\<close> at an element should depend on the inputs at that element
  only. At an element with \<open>SA = 0\<close> it does not: alone, the element has the defined entry
  \<open>g03 = 101.342743139674\<close> of pure water; next to an element with \<open>SA = 35\<close> the same
  element is masked, because \<^verbatim>\<open>nonzero_SA\<close> is computed over the whole batch and
  \<^verbatim>\<open>np.ma.masked_less_equal(SA, 0)\<close> then masks \<open>SA = 0\<close> with the negative salinities.
\<close>

theorem gibbs_zero_salinity_depends_on_batch:
  "gibbs cte_teos10 0 0 0 [Some 0] [Some 0] [Some 0] = Inr [Some 101.342743139674]
   \<and> map_sum id (\<lambda>out. [out ! 0]) (gibbs cte_teos10 0 0 0 [Some 0, Some 35] [Some 0, Some 0] [Some 0, Some 0])
       = Inr [None]"
proof -
  have a: "gibbs cte_teos10 0 0 0 [Some 0] [Some 0] [Some 0] = Inr [Some 101.342743139674]"
    by (simp add: gibbs_eval_defs g03_000_def)
  have nz: "nonzero_SA [Some 0, Some 35]"
    unfolding nonzero_SA_iff by (intro disjI2 exI[of _ 35]) simp
  have sel: "gibbs_select (sfac cte_teos10) 0 0 0 (nonzero_SA [Some 0, Some 35]) = Inr (Some (gibbs_000 (sfac cte_teos10) True))"
    using nz by (simp add: gibbs_select_def)
  have g: "gibbs cte_teos10 0 0 0 [Some 0, Some 35] [Some 0, Some 0] [Some 0, Some 0]
      = Inr (map (\<lambda>(s, t, p). gibbs_entry (nonzero_SA [Some 0, Some 35]) (Some (gibbs_000 (sfac cte_teos10) True)) s t p)
               (zip [Some 0, Some 35] (zip [Some 0, Some 0] [Some 0, Some 0])))"
    by (rule gibbs_Inr_map[OF _ _ sel]) simp_all
  have b: "map_sum id (\<lambda>out. [out ! 0]) (gibbs cte_teos10 0 0 0 [Some 0, Some 35] [Some 0, Some 0] [Some 0, Some 0])
       = Inr [None]"
    unfolding g using nz by (simp add: gibbs_entry_def del: gibbs_000.simps)
  show ?thesis using a b by simp
qed

text \<open>
  The helper \<^verbatim>\<open>_gibbs_pt0_pt0\<close>, which its docstring equates with
  \<^verbatim>\<open>_gibbs(0,2,0,SA,t,0)\<close>, is defined at the element with \<open>SA = 0\<close> of the same batch.
\<close>

lemma gibbs_pt0_pt0_zero_salinity_defined:
  "gibbs_pt0_pt0 cte_teos10 [Some 0, Some 35] [Some 0, Some 0] ! 0 = Some (- 15.44723241629875)
   \<and> map_sum id (\<lambda>out. out ! 0) (gibbs cte_teos10 0 2 0 [Some 0, Some 35] [Some 0, Some 0] [Some 0, Some 0])
       = Inr None"
proof -
  have a: "gibbs_pt0_pt0 cte_teos10 [Some 0, Some 35] [Some 0, Some 0] ! 0 = Some (- 15.44723241629875)"
    by (simp add: gibbs_pt0_pt0_def strip_mask2_def Let_def ma_array_def mask_or_def getmaskarray_def
          mask_negative_def filled_def gibbs_pt0_pt0_g03_def gibbs_pt0_pt0_g08_def)
  have pos: "\<exists>j<length [Some 0, Some (35::real)]. \<exists>v>0. [Some 0, Some (35::real)] ! j = Some v"
    by (intro exI[of _ 1] exI[of _ 35]) simp
  have "\<not> isl (gibbs cte_teos10 0 2 0 [Some 0, Some 35] [Some 0, Some 0] [Some 0, Some 0])"
    by (simp add: gibbs_isl gibbs_select_def)
  then obtain out where out: "gibbs cte_teos10 0 2 0 [Some 0, Some 35] [Some 0, Some 0] [Some 0, Some 0] = Inr out"
    by (cases "gibbs cte_teos10 0 2 0 [Some 0, Some 35] [Some 0, Some 0] [Some 0, Some 0]") simp_all
  have "out ! 0 = None"
    by (rule gibbs_zero_salinity_masked[OF _ _ _ _ pos out]) simp_all
  then show ?thesis using a out by simp
qed

subsection \<open>Negative salinity\<close>





section \<open>Properties of the potential-temperature solver\<close>

lemma length_ma_map: "length (ma_map f a) = length a"
  by (simp add: ma_map_def)

lemma length_ma_zip: "length (ma_zip a b) = min (length a) (length b)"
  by (simp add: ma_zip_def)

lemma length_ma_sub: "length (ma_sub a b) = min (length a) (length b)"
  by (simp add: ma_sub_def length_ma_map length_ma_zip)

lemma length_true_divide: "length (true_divide a b) = min (length a) (length b)"
  by (simp add: true_divide_def length_ma_zip)

lemma length_ma_scalar: "length (ma_scalar a c) = length a"
  by (simp add: ma_scalar_def)

lemma length_clamp_negative: "length (clamp_negative a) = length a"
  by (simp add: clamp_negative_def)

lemma length_entropy_part:
  "length (entropy_part cte SA t p) = min (length SA) (min (length t) (length p))"
  by (simp add: entropy_part_def strip_mask3_def Let_def ma_array_def mask_or_def getmaskarray_def
        mask_negative_def filled_def)

lemmas ma_lengths = length_ma_map length_ma_zip length_ma_sub length_true_divide length_ma_scalar
  length_clamp_negative length_entropy_part

lemma nth_ma_map: "i < length a \<Longrightarrow> ma_map f a ! i = map_option f (a ! i)"
  by (simp add: ma_map_def)

lemma nth_ma_zip:
  "i < length a \<Longrightarrow> i < length b \<Longrightarrow>
     ma_zip a b ! i = (case a ! i of None \<Rightarrow> None | Some x \<Rightarrow> map_option (Pair x) (b ! i))"
  by (simp add: ma_zip_def)

lemma nth_ma_sub:
  "i < length a \<Longrightarrow> i < length b \<Longrightarrow>
     ma_sub a b ! i = (case a ! i of None \<Rightarrow> None | Some x \<Rightarrow> map_option (\<lambda>y. x - y) (b ! i))"
  by (cases "a ! i"; cases "b ! i") (simp_all add: ma_sub_def nth_ma_map nth_ma_zip length_ma_zip)

lemma nth_true_divide:
  "i < length a \<Longrightarrow> i < length b \<Longrightarrow>
     true_divide a b ! i =
       (case a ! i of None \<Rightarrow> None
        | Some x \<Rightarrow> (case b ! i of None \<Rightarrow> None
                    | Some y \<Rightarrow> if domain_safe_divide x y then None else Some (x / y)))"
  by (simp add: true_divide_def nth_ma_zip length_ma_zip split: option.splits)

lemma nth_ma_scalar: "i < length a \<Longrightarrow> ma_scalar a c ! i = Some c"
  by (simp add: ma_scalar_def)

lemma nth_clamp_negative:
  "i < length a \<Longrightarrow> clamp_negative a ! i = map_option (\<lambda>r. max r 0) (a ! i)"
  by (auto simp: clamp_negative_def max_def split: option.splits)

lemma nth_entropy_part:
  assumes "i < length SA" "i < length t" "i < length p"
  shows "entropy_part cte SA t p ! i =
          (case SA ! i of None \<Rightarrow> None
           | Some s \<Rightarrow> (case t ! i of None \<Rightarrow> None
             | Some T \<Rightarrow> (case p ! i of None \<Rightarrow> None
               | Some P \<Rightarrow> if s < 0 then None else Some (entropy_part_elem (sfac cte) (s, T, P)))))"
  using assms
  by (simp add: entropy_part_def strip_mask3_def Let_def ma_array_def mask_or_def getmaskarray_def
        mask_negative_def filled_def split: option.splits del: entropy_part_elem.simps)

lemma domain_safe_divide_zero: "domain_safe_divide 0 d \<longleftrightarrow> d = 0"
  by (simp add: domain_safe_divide_def)

lemma domain_safe_divide_nonzero: "\<not> domain_safe_divide a d \<Longrightarrow> d \<noteq> 0"
  by (auto simp: domain_safe_divide_def ma_tiny_def)

lemma gibbs_select_020: "gibbs_select sf 0 2 0 nz = Inr (Some (gibbs_020 sf nz))"
  by (simp add: gibbs_select_def)

lemma potential_t_loop_fixed:
  assumes len: "length pr = length SA" "length tep = length SA" "length pt = length SA"
      "length ddt = length SA"
    and i: "i < length SA"
    and ent: "SA ! i = Some s" "0 \<le> s" "pr ! i = Some P" "pt ! i = Some T"
      "tep ! i = Some (entropy_part_elem (sfac cte) (s, T, P))"
    and ddt: "ddt ! i = Some d" "d \<noteq> 0"
    and nz: "nonzero_SA SA \<longrightarrow> 0 < s"
    and j: "gibbs_020 (sfac cte) (nonzero_SA SA) (s, T, P) \<noteq> 0"
  shows "\<exists>pt' ddt'. potential_t_loop n cte SA pr tep (pt, ddt) = Inr (pt', ddt') \<and>
           length pt' = length SA \<and> pt' ! i = Some T"
  using len(3,4) ent(4) ddt
proof (induction n arbitrary: pt ddt d)
  case 0
  then show ?case by simp
next
  case (Suc n)
  let ?nz = "nonzero_SA SA"
  define dentropy where "dentropy = ma_sub (entropy_part cte SA pt pr) tep"
  define pt1 where "pt1 = ma_sub pt (true_divide dentropy ddt)"
  define ptm where "ptm = ma_map (\<lambda>(a, b). 0.5 * (a + b)) (ma_zip pt1 pt)"
  define g where "g = map (\<lambda>(s, t, p). gibbs_entry ?nz (Some (gibbs_020 (sfac cte) ?nz)) s t p) (zip SA (zip ptm pr))"
  define ddt2 where "ddt2 = ma_map uminus g"
  define pt2 where "pt2 = ma_sub pt (true_divide dentropy ddt2)"
  have l: "length dentropy = length SA" "length pt1 = length SA" "length ptm = length SA"
    "length g = length SA" "length ddt2 = length SA" "length pt2 = length SA"
    using len(1,2) Suc.prems(1,2)
    by (simp_all add: dentropy_def pt1_def ptm_def g_def ddt2_def pt2_def ma_lengths)
  have de: "dentropy ! i = Some 0"
    using i len(1,2) Suc.prems(1,3) ent
    by (simp add: dentropy_def nth_ma_sub nth_entropy_part ma_lengths del: entropy_part_elem.simps)
  have p1: "pt1 ! i = Some T"
    using i l(1) Suc.prems de
    by (simp add: pt1_def nth_ma_sub nth_true_divide ma_lengths domain_safe_divide_zero)
  have pm: "ptm ! i = Some T"
    using i l(2) Suc.prems(1,3) p1
    by (simp add: ptm_def nth_ma_map nth_ma_zip ma_lengths)
  have gi: "g ! i = Some (gibbs_020 (sfac cte) ?nz (s, T, P))"
    using i l(3) len(1) pm ent nz
    by (auto simp: g_def gibbs_entry_def simp del: gibbs_020.simps)
  have d2: "ddt2 ! i = Some (- gibbs_020 (sfac cte) ?nz (s, T, P))"
    using i l(4) gi by (simp add: ddt2_def nth_ma_map del: gibbs_020.simps)
  have p2: "pt2 ! i = Some T"
    using i l(1,5) Suc.prems(1,3) de d2 j
    by (simp add: pt2_def nth_ma_sub nth_true_divide ma_lengths domain_safe_divide_zero
          del: gibbs_020.simps)
  have gg: "gibbs cte 0 2 0 SA ptm pr = Inr g"
    unfolding g_def by (rule gibbs_Inr_map[OF l(3) len(1) gibbs_select_020])
  have step: "potential_t_loop (Suc n) cte SA pr tep (pt, ddt) = potential_t_loop n cte SA pr tep (pt2, ddt2)"
    by (simp only: potential_t_loop.simps Let_def dentropy_def[symmetric] pt1_def[symmetric]
          ptm_def[symmetric] gg sum.case ddt2_def[symmetric] pt2_def[symmetric])
  show ?case
    unfolding step
    using Suc.IH[OF l(6) l(5) p2 d2] j by simp
qed

lemma potential_t_estimate_own_pressure: "potential_t_estimate (T, P, P, s1) = T"
  by (simp add: potential_t_estimate_def)

lemma clamp_negative_positive:
  "(\<exists>j<length SA. \<exists>v>0. clamp_negative SA ! j = Some v) \<longleftrightarrow> (\<exists>j<length SA. \<exists>v>0. SA ! j = Some v)"
proof -
  have "(\<exists>v>0. clamp_negative SA ! j = Some v) \<longleftrightarrow> (\<exists>v>0. SA ! j = Some v)" if "j < length SA" for j
    using that by (cases "SA ! j") (auto simp: nth_clamp_negative max_def)
  then show ?thesis by blast
qed

lemma potential_t_loop_masked:
  assumes len: "length pr = length SA" "length tep = length SA" "length pt = length SA"
      "length ddt = length SA"
    and i: "i < length SA"
    and s: "SA ! i = Some s" "s \<le> 0" "nonzero_SA SA"
  shows "\<exists>pt' ddt'. potential_t_loop (Suc n) cte SA pr tep (pt, ddt) = Inr (pt', ddt') \<and>
           length pt' = length SA \<and> pt' ! i = None"
  using len(3,4)
proof (induction n arbitrary: pt ddt)
  case 0
  let ?nz = "nonzero_SA SA"
  define dentropy where "dentropy = ma_sub (entropy_part cte SA pt pr) tep"
  define pt1 where "pt1 = ma_sub pt (true_divide dentropy ddt)"
  define ptm where "ptm = ma_map (\<lambda>(a, b). 0.5 * (a + b)) (ma_zip pt1 pt)"
  define g where "g = map (\<lambda>(s, t, p). gibbs_entry ?nz (Some (gibbs_020 (sfac cte) ?nz)) s t p) (zip SA (zip ptm pr))"
  define ddt2 where "ddt2 = ma_map uminus g"
  define pt2 where "pt2 = ma_sub pt (true_divide dentropy ddt2)"
  have l: "length dentropy = length SA" "length pt1 = length SA" "length ptm = length SA"
    "length g = length SA" "length ddt2 = length SA" "length pt2 = length SA"
    using len(1,2) "0.prems"
    by (simp_all add: dentropy_def pt1_def ptm_def g_def ddt2_def pt2_def ma_lengths)
  have gi: "g ! i = None"
    using i l(3) len(1) s
    by (simp add: g_def gibbs_entry_def del: gibbs_020.simps)
  have d2: "ddt2 ! i = None"
    using i l(4) gi by (simp add: ddt2_def nth_ma_map)
  have p2: "pt2 ! i = None"
    using i l(1,5) "0.prems" d2
    by (simp add: pt2_def nth_ma_sub nth_true_divide ma_lengths split: option.splits)
  have gg: "gibbs cte 0 2 0 SA ptm pr = Inr g"
    unfolding g_def by (rule gibbs_Inr_map[OF l(3) len(1) gibbs_select_020])
  have step: "potential_t_loop (Suc 0) cte SA pr tep (pt, ddt) = Inr (pt2, ddt2)"
    by (simp only: potential_t_loop.simps Let_def dentropy_def[symmetric] pt1_def[symmetric]
          ptm_def[symmetric] gg sum.case ddt2_def[symmetric] pt2_def[symmetric])
  show ?case
    unfolding step using l(6) p2 by simp
next
  case (Suc n)
  define dentropy where "dentropy = ma_sub (entropy_part cte SA pt pr) tep"
  define pt1 where "pt1 = ma_sub pt (true_divide dentropy ddt)"
  define ptm where "ptm = ma_map (\<lambda>(a, b). 0.5 * (a + b)) (ma_zip pt1 pt)"
  define g where "g = map (\<lambda>(s, t, p). gibbs_entry (nonzero_SA SA) (Some (gibbs_020 (sfac cte) (nonzero_SA SA))) s t p) (zip SA (zip ptm pr))"
  define ddt2 where "ddt2 = ma_map uminus g"
  define pt2 where "pt2 = ma_sub pt (true_divide dentropy ddt2)"
  have l: "length ddt2 = length SA" "length pt2 = length SA" "length ptm = length SA"
    using len(1,2) Suc.prems
    by (simp_all add: dentropy_def pt1_def ptm_def g_def ddt2_def pt2_def ma_lengths)
  have gg: "gibbs cte 0 2 0 SA ptm pr = Inr g"
    unfolding g_def by (rule gibbs_Inr_map[OF l(3) len(1) gibbs_select_020])
  have step: "potential_t_loop (Suc (Suc n)) cte SA pr tep (pt, ddt) = potential_t_loop (Suc n) cte SA pr tep (pt2, ddt2)"
    by (simp only: potential_t_loop.simps(2)[of "Suc n"] Let_def dentropy_def[symmetric] pt1_def[symmetric]
          ptm_def[symmetric] gg sum.case ddt2_def[symmetric] pt2_def[symmetric])
  show ?case
    unfolding step by (rule Suc.IH[OF l(2) l(1)])
qed

lemma potential_t_masked_zero_salinity:
  assumes conf: "length t = length SA" "length p = length SA" "length pr = length SA"
    and i: "i < length SA"
    and s: "SA ! i = Some s" "s \<le> 0"
    and pos: "\<exists>j<length SA. \<exists>v>0. SA ! j = Some v"
  shows "\<exists>out. potential_t cte SA t p pr = Inr out \<and> length out = length SA \<and> out ! i = None"
proof -
  let ?SA = "clamp_negative SA"
  have si: "?SA ! i = Some (max s 0)"
    using i s(1) by (simp add: nth_clamp_negative)
  have nz: "nonzero_SA ?SA"
    using nonzero_SA_nth[of i ?SA "max s 0"] i si pos clamp_negative_positive[of SA]
    by (simp add: ma_lengths)
  define s1 where "s1 = true_divide (ma_map (\<lambda>s. s * 35) ?SA) (ma_scalar ?SA (SSO cte))"
  define pt where "pt = ma_map potential_t_estimate (ma_zip t (ma_zip p (ma_zip pr s1)))"
  define ddt where "ddt = true_divide (ma_scalar ?SA (cp0 cte))
                         (ma_map (\<lambda>(pt, q). (Kelvin cte + pt) * (1 - 0.05 * (1 - q)))
                            (ma_zip pt (true_divide ?SA (ma_scalar ?SA (SSO cte)))))"
  have l: "length pt = length ?SA" "length ddt = length ?SA" "length pr = length ?SA"
     "length (entropy_part cte ?SA t p) = length ?SA"
    using conf by (simp_all add: pt_def ddt_def s1_def ma_lengths)
  from potential_t_loop_masked[of pr ?SA "entropy_part cte ?SA t p" pt ddt i "max s 0" 1 cte,
      OF l(3) l(4) l(1) l(2) _ si _ nz] i s(2)
  obtain pt' ddt' where r: "potential_t_loop 2 cte ?SA pr (entropy_part cte ?SA t p) (pt, ddt) = Inr (pt', ddt')"
      "length pt' = length SA" "pt' ! i = None"
    by (auto simp: ma_lengths numeral_2_eq_2)
  have "potential_t cte SA t p pr = Inr pt'"
    unfolding potential_t_def Let_def s1_def[symmetric] pt_def[symmetric] ddt_def[symmetric] r(1)
    by simp
  then show ?thesis using r(2,3) by simp
qed

text \<open>
  At its own pressure the solver leaves the temperature of an element where it is: the
  initial estimate is \<open>t\<close> and both corrector passes find a zero entropy difference. This
  holds at an element with defined \<open>SA\<close>, \<open>t\<close>, \<open>p\<close> where the divisions of the initial
  estimate are defined and the second temperature derivative is nonzero, unless the element
  has \<open>SA \<le> 0\<close> and shares the batch with a positive salinity.
\<close>

lemma potential_t_own_pressure:
  assumes conf: "length t = length SA" "length p = length SA"
    and i: "i < length SA"
    and ent: "SA ! i = Some s" "t ! i = Some T" "p ! i = Some P"
    and z: "s \<le> 0 \<longrightarrow> \<not> (\<exists>j<length SA. \<exists>v>0. SA ! j = Some v)"
    and c: "cp0 cte \<noteq> 0"
    and d1: "\<not> domain_safe_divide (max s 0 * 35) (SSO cte)" "\<not> domain_safe_divide (max s 0) (SSO cte)"
    and d2: "\<not> domain_safe_divide (cp0 cte) ((Kelvin cte + T) * (1 - 0.05 * (1 - max s 0 / SSO cte)))"
    and j: "gibbs_020 (sfac cte) (0 < s) (max s 0, T, P) \<noteq> 0"
  shows "\<exists>out. potential_t cte SA t p p = Inr out \<and> length out = length SA \<and> out ! i = Some T"
proof -
  let ?SA = "clamp_negative SA"
  let ?s = "max s 0"
  have si: "?SA ! i = Some ?s"
    using i ent(1) by (simp add: nth_clamp_negative)
  have nz: "nonzero_SA ?SA \<longleftrightarrow> 0 < s"
  proof (cases "0 < s")
    case True
    then have "\<exists>j<length SA. \<exists>v>0. SA ! j = Some v"
      using i ent(1) by blast
    then show ?thesis
      using True nonzero_SA_nth[of i ?SA ?s] i si clamp_negative_positive[of SA]
      by (simp add: ma_lengths)
  next
    case False
    then have "\<not> (\<exists>j<length SA. \<exists>v>0. SA ! j = Some v)"
      using z by simp
    then show ?thesis
      using False nonzero_SA_nth[of i ?SA ?s] i si clamp_negative_positive[of SA]
      by (simp add: ma_lengths)
  qed
  define s1 where "s1 = true_divide (ma_map (\<lambda>s. s * 35) ?SA) (ma_scalar ?SA (SSO cte))"
  define pt where "pt = ma_map potential_t_estimate (ma_zip t (ma_zip p (ma_zip p s1)))"
  define q where "q = true_divide ?SA (ma_scalar ?SA (SSO cte))"
  define ddt where "ddt = true_divide (ma_scalar ?SA (cp0 cte))
                         (ma_map (\<lambda>(pt, q). (Kelvin cte + pt) * (1 - 0.05 * (1 - q))) (ma_zip pt q))"
  define tep where "tep = entropy_part cte ?SA t p"
  have l: "length s1 = length ?SA" "length pt = length ?SA" "length q = length ?SA"
    "length ddt = length ?SA" "length p = length ?SA" "length tep = length ?SA"
    using conf by (simp_all add: pt_def ddt_def s1_def q_def tep_def ma_lengths)
  have i': "i < length ?SA" using i by (simp add: ma_lengths)
  have s1i: "s1 ! i = Some (?s * 35 / SSO cte)"
    using i si d1(1) by (simp add: s1_def nth_true_divide nth_ma_map nth_ma_scalar ma_lengths)
  have pti: "pt ! i = Some T"
    using i conf l(1) ent s1i
    by (simp add: pt_def nth_ma_map nth_ma_zip ma_lengths potential_t_estimate_own_pressure)
  have qi: "q ! i = Some (?s / SSO cte)"
    using i si d1(2) by (simp add: q_def nth_true_divide nth_ma_scalar ma_lengths)
  have ddti: "ddt ! i = Some (cp0 cte / ((Kelvin cte + T) * (1 - 0.05 * (1 - ?s / SSO cte))))"
    using i l(2,3) pti qi d2
    by (simp add: ddt_def nth_true_divide nth_ma_map nth_ma_zip nth_ma_scalar ma_lengths)
  have dnz: "cp0 cte / ((Kelvin cte + T) * (1 - 0.05 * (1 - ?s / SSO cte))) \<noteq> 0"
    using c domain_safe_divide_nonzero[OF d2] by simp
  have tepi: "tep ! i = Some (entropy_part_elem (sfac cte) (?s, T, P))"
    using i conf si ent(2,3)
    by (simp add: tep_def nth_entropy_part ma_lengths del: entropy_part_elem.simps)
  from potential_t_loop_fixed[of p ?SA tep pt ddt i ?s P T cte _ 2,
      OF l(5) l(6) l(2) l(4) i' si _ ent(3) pti tepi ddti dnz] nz j
  obtain pt' ddt' where r: "potential_t_loop 2 cte ?SA p tep (pt, ddt) = Inr (pt', ddt')"
      "length pt' = length SA" "pt' ! i = Some T"
    by (auto simp: ma_lengths)
  have "potential_t cte SA t p p = Inr pt'"
    unfolding potential_t_def Let_def s1_def[symmetric] pt_def[symmetric] q_def[symmetric]
      ddt_def[symmetric] tep_def[symmetric] r(1)
    by simp
  then show ?thesis using r(2,3) by simp
qed

lemma gibbs_020_pure_water: "gibbs_020 (sfac cte_teos10) False (0, 10, 100) \<noteq> 0"
proof -
  have "gibbs_020 (sfac cte_teos10) False (0, 10, 100) = g03_020 0.25 0.01 * 0.000625"
    by (simp add: Let_def)
  moreover have "g03_020 0.25 0.01 < 0"
    by (simp add: g03_020_def)
  ultimately show ?thesis by simp
qed

text \<open>
  C7. \<^verbatim>\<open>potential_t(SA, t, p, pr=p)\<close> should return \<open>t\<close>. For pure water (\<open>SA = 0\<close>),
  \<open>t = 10\<close>, \<open>p = 100\<close> it does when the element is alone. When the element shares the batch
  with \<open>SA = 35\<close>, \<^verbatim>\<open>_gibbs(0, 2, 0, SA, ptm, pr)\<close> masks the element, and the masked
  Jacobian makes the returned temperature undefined instead of \<open>10\<close>.
\<close>

theorem potential_t_zero_salinity_in_mixed_batch:
  "potential_t cte_teos10 [Some 0] [Some 10] [Some 100] [Some 100] = Inr [Some 10]
   \<and> map_sum id (\<lambda>out. out ! 0)
       (potential_t cte_teos10 [Some 0, Some 35] [Some 10, Some 10] [Some 100, Some 100] [Some 100, Some 100])
     = Inr None"
proof -
  have z: "(0::real) \<le> 0 \<longrightarrow> \<not> (\<exists>j<length [Some (0::real)]. \<exists>v>0. [Some (0::real)] ! j = Some v)"
    by simp
  have c: "cp0 cte_teos10 \<noteq> 0"
    by (simp add: cte_teos10_def)
  have d1: "\<not> domain_safe_divide (max (0::real) 0 * 35) (SSO cte_teos10)"
    "\<not> domain_safe_divide (max (0::real) 0) (SSO cte_teos10)"
    by (simp_all add: domain_safe_divide_zero cte_teos10_def)
  have d2: "\<not> domain_safe_divide (cp0 cte_teos10)
      ((Kelvin cte_teos10 + 10) * (1 - 0.05 * (1 - max (0::real) 0 / SSO cte_teos10)))"
    by (simp add: domain_safe_divide_def ma_tiny_def cte_teos10_def)
  have j: "gibbs_020 (sfac cte_teos10) ((0::real) < 0) (max 0 0, 10, 100) \<noteq> 0"
    using gibbs_020_pure_water by simp
  obtain one where one: "potential_t cte_teos10 [Some 0] [Some 10] [Some 100] [Some 100] = Inr one"
    "length one = length [Some (0::real)]" "one ! 0 = Some 10"
    using potential_t_own_pressure[of "[Some 10]" "[Some 0]" "[Some 100]" 0 0 10 100 cte_teos10,
        OF _ _ _ _ _ _ z c d1 d2 j]
    by auto
  have "one = [Some 10]"
    using one(2,3) by (cases one) simp_all
  then have a: "potential_t cte_teos10 [Some 0] [Some 10] [Some 100] [Some 100] = Inr [Some 10]"
    using one(1) by simp
  have pos: "\<exists>j<length [Some 0, Some (35::real)]. \<exists>v>0. [Some 0, Some (35::real)] ! j = Some v"
    by (intro exI[of _ 1] exI[of _ 35]) simp
  obtain out where "potential_t cte_teos10 [Some 0, Some 35] [Some 10, Some 10] [Some 100, Some 100] [Some 100, Some 100] = Inr out"
    "out ! 0 = None"
    using potential_t_masked_zero_salinity[of "[Some 10, Some 10]" "[Some 0, Some 35]" "[Some 100, Some 100]"
        "[Some 100, Some 100]" 0 0 cte_teos10, OF _ _ _ _ _ _ pos]
    by auto
  then show ?thesis using a by simp
qed


section \<open>Potential enthalpy and the engine\<close>

lemma pot_enthalpy_ring:
  fixes x y L :: real
  shows "g03_000 y 0 + (g08_000 (x * x) x y 0 + (x * x) * (5812.81456626732 + 851.226734946706 * y) * L)
     - (273.15 + y * 40) * ((g03_010 y 0 + (g08_010 (x * x) x y 0 + 851.226734946706 * (x * x) * L)) * 0.025)
     - pot_enthalpy_poly (x * x) x y =
    0.000000000000000925 - 0.0000000000075 * y - 0.000000000000883625 * y ^ 2 +
    0.00000000000067 * y ^ 3 + 0.0000000000001467375 * y ^ 4 + 0.0000000000000252875 * y ^ 5
    - 0.0000000000000055875 * y ^ 6 - 0.00000000000001875 * x ^ 2 + 0.0000000000014025 * x ^
    2 * L - 0.00000000000163 * x ^ 2 * y - 0.00000000000026375 * x ^ 2 * y ^ 2 -
    0.0000000000001585 * x ^ 2 * y ^ 3 + 0.0000000000000922 * x ^ 2 * y ^ 4 +
    0.000000000000001225 * x ^ 2 * y ^ 5 + 0.000000000000003 * x ^ 2 * y ^ 6 +
    0.0000000000002575 * x ^ 3 + 0.0000000000000615 * x ^ 3 * y + 0.000000000000021875 * x ^
    3 * y ^ 2 + 0.000000000000000325 * x ^ 3 * y ^ 3 + 0.0000000000000006 * x ^ 3 * y ^ 4 -
    0.0000000000002175 * x ^ 4 - 0.00000000000001675 * x ^ 4 * y - 0.000000000000214175 * x
    ^ 4 * y ^ 2 - 0.000000000000058 * x ^ 4 * y ^ 3 - 0.00000000000000775 * x ^ 4 * y ^ 4 +
    0.000000000000002 * x ^ 4 * y ^ 5 + 0.00000000000016 * x ^ 5 + 0.000000000000020625 * x
    ^ 6"
  unfolding g03_000_def g08_000_def g03_010_def g08_010_def pot_enthalpy_poly_def
  by algebra

lemma residue_linear_bound:
  fixes m1 m2 m3 m4 m5 m6 m7 m8 m9 m10 m11 m12 m13 m14 m15 m16 m17 m18 m19 m20 m21 m22 m23 m24
    m25 m26 m27 :: real
  assumes b1: "\<bar>m1\<bar> \<le> 1"
    and b2: "\<bar>m2\<bar> \<le> 1"
    and b3: "\<bar>m3\<bar> \<le> 1"
    and b4: "\<bar>m4\<bar> \<le> 1"
    and b5: "\<bar>m5\<bar> \<le> 1"
    and b6: "\<bar>m6\<bar> \<le> 1"
    and b7: "\<bar>m7\<bar> \<le> 1.21"
    and b8: "\<bar>m8\<bar> \<le> 0.25"
    and b9: "\<bar>m9\<bar> \<le> 1.21"
    and b10: "\<bar>m10\<bar> \<le> 1.21"
    and b11: "\<bar>m11\<bar> \<le> 1.21"
    and b12: "\<bar>m12\<bar> \<le> 1.21"
    and b13: "\<bar>m13\<bar> \<le> 1.21"
    and b14: "\<bar>m14\<bar> \<le> 1.21"
    and b15: "\<bar>m15\<bar> \<le> 1.331"
    and b16: "\<bar>m16\<bar> \<le> 1.331"
    and b17: "\<bar>m17\<bar> \<le> 1.331"
    and b18: "\<bar>m18\<bar> \<le> 1.331"
    and b19: "\<bar>m19\<bar> \<le> 1.331"
    and b20: "\<bar>m20\<bar> \<le> 1.4641"
    and b21: "\<bar>m21\<bar> \<le> 1.4641"
    and b22: "\<bar>m22\<bar> \<le> 1.4641"
    and b23: "\<bar>m23\<bar> \<le> 1.4641"
    and b24: "\<bar>m24\<bar> \<le> 1.4641"
    and b25: "\<bar>m25\<bar> \<le> 1.4641"
    and b26: "\<bar>m26\<bar> \<le> 1.61051"
    and b27: "\<bar>m27\<bar> \<le> 1.771561"
  shows "\<bar>
      0.000000000000000925 - 0.0000000000075 * m1 - 0.000000000000883625 * m2 +
      0.00000000000067 * m3 + 0.0000000000001467375 * m4 + 0.0000000000000252875 * m5 -
      0.0000000000000055875 * m6 - 0.00000000000001875 * m7 + 0.0000000000014025 * m8 -
      0.00000000000163 * m9 - 0.00000000000026375 * m10 - 0.0000000000001585 * m11 +
      0.0000000000000922 * m12 + 0.000000000000001225 * m13 + 0.000000000000003 * m14 +
      0.0000000000002575 * m15 + 0.0000000000000615 * m16 + 0.000000000000021875 * m17 +
      0.000000000000000325 * m18 + 0.0000000000000006 * m19 - 0.0000000000002175 * m20 -
      0.00000000000001675 * m21 - 0.000000000000214175 * m22 - 0.000000000000058 * m23 -
      0.00000000000000775 * m24 + 0.000000000000002 * m25 + 0.00000000000016 * m26 +
      0.000000000000020625 * m27\<bar> \<le> 1 / 10 ^ 10"
proof -
  note b = b1[unfolded abs_le_iff] b2[unfolded abs_le_iff] b3[unfolded abs_le_iff] b4[unfolded
    abs_le_iff] b5[unfolded abs_le_iff] b6[unfolded abs_le_iff] b7[unfolded abs_le_iff]
    b8[unfolded abs_le_iff] b9[unfolded abs_le_iff] b10[unfolded abs_le_iff] b11[unfolded
    abs_le_iff] b12[unfolded abs_le_iff] b13[unfolded abs_le_iff] b14[unfolded abs_le_iff]
    b15[unfolded abs_le_iff] b16[unfolded abs_le_iff] b17[unfolded abs_le_iff] b18[unfolded
    abs_le_iff] b19[unfolded abs_le_iff] b20[unfolded abs_le_iff] b21[unfolded abs_le_iff]
    b22[unfolded abs_le_iff] b23[unfolded abs_le_iff] b24[unfolded abs_le_iff] b25[unfolded
    abs_le_iff] b26[unfolded abs_le_iff] b27[unfolded abs_le_iff]
  show ?thesis
    unfolding abs_le_iff using b by (intro conjI; simp; linarith)
qed

lemma monomial_bound:
  fixes x y :: real
  assumes "0 \<le> x" "x \<le> 1.1" "\<bar>y\<bar> \<le> 1"
  shows "\<bar>x ^ i * y ^ j\<bar> \<le> 1.1 ^ i"
proof -
  have "\<bar>x ^ i\<bar> \<le> 1.1 ^ i"
    using assms(1,2) by (simp add: power_mono)
  moreover have "\<bar>y ^ j\<bar> \<le> 1"
    using assms(3) by (simp add: power_abs power_le_one)
  ultimately have "\<bar>x ^ i\<bar> * \<bar>y ^ j\<bar> \<le> 1.1 ^ i * 1"
    by (intro mult_mono) simp_all
  then show ?thesis by (simp add: abs_mult)
qed

lemma x2_ln_bound:
  fixes x :: real
  assumes "0 < x" "x \<le> 1.1"
  shows "\<bar>x ^ 2 * ln x\<bar> \<le> 1 / 4"
proof (cases "x \<le> 1")
  case True
  have "ln (1 / x) \<le> 1 / x - 1"
    using assms(1) by (intro ln_le_minus_one) simp
  then have "- ln x \<le> 1 / x - 1"
    using assms(1) by (simp add: ln_div)
  then have "x ^ 2 * (- ln x) \<le> x ^ 2 * (1 / x - 1)"
    by (intro mult_left_mono) simp_all
  also have "\<dots> = x - x ^ 2"
    using assms(1) by (simp add: power2_eq_square algebra_simps)
  also have "\<dots> \<le> 1 / 4"
    using sum_squares_ge_zero[of "x - 1 / 2" 0] by (simp add: power2_eq_square algebra_simps)
  finally have "x ^ 2 * (- ln x) \<le> 1 / 4" .
  moreover have "ln x \<le> 0" using True assms(1) by simp
  then have "x ^ 2 * ln x \<le> 0" by (simp add: mult_nonneg_nonpos)
  ultimately show ?thesis by simp
next
  case False
  then have x1: "1 < x" by simp
  have "ln x \<le> x - 1" using assms(1) by (rule ln_le_minus_one)
  then have l: "ln x \<le> 0.1" using assms(2) by simp
  have l0: "0 \<le> ln x" using x1 by simp
  have "x ^ 2 \<le> 1.1 ^ 2" using assms by (intro power_mono) simp_all
  then have "x ^ 2 * ln x \<le> 1.1 ^ 2 * 0.1"
    using l l0 by (intro mult_mono) simp_all
  then have le: "x ^ 2 * ln x \<le> 1 / 4"
    by (simp add: power2_eq_square)
  have "0 \<le> x ^ 2 * ln x"
    using l0 by simp
  then show ?thesis using le by simp
qed

lemma pot_enthalpy_residue_bound:
  fixes x y :: real
  assumes "0 < x" "x \<le> 1.1" "\<bar>y\<bar> \<le> 1"
  shows "\<bar>pot_enthalpy_residue x y\<bar> \<le> 1 / 10 ^ 10"
proof -
  have m: "\<bar>x ^ i * y ^ j\<bar> \<le> 1.1 ^ i" for i j
    using monomial_bound[of x y i j] assms by simp
  have l: "\<bar>x ^ 2 * ln x\<bar> \<le> 1 / 4"
    by (rule x2_ln_bound[OF assms(1,2)])
  have eq: "pot_enthalpy_residue x y =
      0.000000000000000925 - 0.0000000000075 * (y) - 0.000000000000883625 * (y ^ 2) +
      0.00000000000067 * (y ^ 3) + 0.0000000000001467375 * (y ^ 4) + 0.0000000000000252875 *
      (y ^ 5) - 0.0000000000000055875 * (y ^ 6) - 0.00000000000001875 * (x ^ 2) +
      0.0000000000014025 * (x ^ 2 * ln x) - 0.00000000000163 * (x ^ 2 * y) -
      0.00000000000026375 * (x ^ 2 * y ^ 2) - 0.0000000000001585 * (x ^ 2 * y ^ 3) +
      0.0000000000000922 * (x ^ 2 * y ^ 4) + 0.000000000000001225 * (x ^ 2 * y ^ 5) +
      0.000000000000003 * (x ^ 2 * y ^ 6) + 0.0000000000002575 * (x ^ 3) +
      0.0000000000000615 * (x ^ 3 * y) + 0.000000000000021875 * (x ^ 3 * y ^ 2) +
      0.000000000000000325 * (x ^ 3 * y ^ 3) + 0.0000000000000006 * (x ^ 3 * y ^ 4) -
      0.0000000000002175 * (x ^ 4) - 0.00000000000001675 * (x ^ 4 * y) -
      0.000000000000214175 * (x ^ 4 * y ^ 2) - 0.000000000000058 * (x ^ 4 * y ^ 3) -
      0.00000000000000775 * (x ^ 4 * y ^ 4) + 0.000000000000002 * (x ^ 4 * y ^ 5) +
      0.00000000000016 * (x ^ 5) + 0.000000000000020625 * (x ^ 6)"
    unfolding pot_enthalpy_residue_def by algebra
  have "\<bar>y\<bar> \<le> 1"
    using m[of 0 1] by (simp add: power_def)
  moreover have "\<bar>y ^ 2\<bar> \<le> 1"
    using m[of 0 2] by (simp add: power_def)
  moreover have "\<bar>y ^ 3\<bar> \<le> 1"
    using m[of 0 3] by (simp add: power_def)
  moreover have "\<bar>y ^ 4\<bar> \<le> 1"
    using m[of 0 4] by (simp add: power_def)
  moreover have "\<bar>y ^ 5\<bar> \<le> 1"
    using m[of 0 5] by (simp add: power_def)
  moreover have "\<bar>y ^ 6\<bar> \<le> 1"
    using m[of 0 6] by (simp add: power_def)
  moreover have "\<bar>x ^ 2\<bar> \<le> 1.21"
    using m[of 2 0] by (simp add: power_def)
  moreover have "\<bar>x ^ 2 * ln x\<bar> \<le> 0.25"
    using l by simp
  moreover have "\<bar>x ^ 2 * y\<bar> \<le> 1.21"
    using m[of 2 1] by (simp add: power_def)
  moreover have "\<bar>x ^ 2 * y ^ 2\<bar> \<le> 1.21"
    using m[of 2 2] by (simp add: power_def)
  moreover have "\<bar>x ^ 2 * y ^ 3\<bar> \<le> 1.21"
    using m[of 2 3] by (simp add: power_def)
  moreover have "\<bar>x ^ 2 * y ^ 4\<bar> \<le> 1.21"
    using m[of 2 4] by (simp add: power_def)
  moreover have "\<bar>x ^ 2 * y ^ 5\<bar> \<le> 1.21"
    using m[of 2 5] by (simp add: power_def)
  moreover have "\<bar>x ^ 2 * y ^ 6\<bar> \<le> 1.21"
    using m[of 2 6] by (simp add: power_def)
  moreover have "\<bar>x ^ 3\<bar> \<le> 1.331"
    using m[of 3 0] by (simp add: power_def)
  moreover have "\<bar>x ^ 3 * y\<bar> \<le> 1.331"
    using m[of 3 1] by (simp add: power_def)
  moreover have "\<bar>x ^ 3 * y ^ 2\<bar> \<le> 1.331"
    using m[of 3 2] by (simp add: power_def)
  moreover have "\<bar>x ^ 3 * y ^ 3\<bar> \<le> 1.331"
    using m[of 3 3] by (simp add: power_def)
  moreover have "\<bar>x ^ 3 * y ^ 4\<bar> \<le> 1.331"
    using m[of 3 4] by (simp add: power_def)
  moreover have "\<bar>x ^ 4\<bar> \<le> 1.4641"
    using m[of 4 0] by (simp add: power_def)
  moreover have "\<bar>x ^ 4 * y\<bar> \<le> 1.4641"
    using m[of 4 1] by (simp add: power_def)
  moreover have "\<bar>x ^ 4 * y ^ 2\<bar> \<le> 1.4641"
    using m[of 4 2] by (simp add: power_def)
  moreover have "\<bar>x ^ 4 * y ^ 3\<bar> \<le> 1.4641"
    using m[of 4 3] by (simp add: power_def)
  moreover have "\<bar>x ^ 4 * y ^ 4\<bar> \<le> 1.4641"
    using m[of 4 4] by (simp add: power_def)
  moreover have "\<bar>x ^ 4 * y ^ 5\<bar> \<le> 1.4641"
    using m[of 4 5] by (simp add: power_def)
  moreover have "\<bar>x ^ 5\<bar> \<le> 1.61051"
    using m[of 5 0] by (simp add: power_def)
  moreover have "\<bar>x ^ 6\<bar> \<le> 1.771561"
    using m[of 6 0] by (simp add: power_def)
  ultimately show ?thesis
    unfolding eq by (rule residue_linear_bound)
qed

lemma nth_pot_enthalpy_from_pt_defined:
  assumes "i < length SA" "i < length pt" "SA ! i = Some s" "0 \<le> s" "pt ! i = Some T" "0 \<le> sfac cte"
  shows "pot_enthalpy_from_pt cte SA pt ! i
           = Some (pot_enthalpy_poly (sfac cte * s) (sqrt (sfac cte * s)) (T * 0.025))"
  using assms
  by (simp add: pot_enthalpy_from_pt_def strip_mask2_def Let_def ma_array_nan_def mask_or_def
        getmaskarray_def mask_negative_def filled_def not_less)

lemma nth_CT_from_pt_defined:
  assumes "i < length SA" "i < length pt" "SA ! i = Some s" "0 \<le> s" "pt ! i = Some T" "0 \<le> sfac cte"
  shows "CT_from_pt cte SA pt ! i
           = Some (pot_enthalpy_poly (sfac cte * s) (sqrt (sfac cte * s)) (T * 0.025) / cp0 cte)"
proof -
  let ?SA = "filled (mask_negative SA) 0" and ?pt = "filled pt 0"
  have l: "i < length (map Some ?SA)" "i < length (map Some ?pt)"
    using assms(1,2) by (simp_all add: filled_def mask_negative_def)
  have e: "map Some ?SA ! i = Some s" "map Some ?pt ! i = Some T"
    using assms(1-5) by (simp_all add: filled_def mask_negative_def)
  have "pot_enthalpy_from_pt cte (map Some ?SA) (map Some ?pt) ! i
          = Some (pot_enthalpy_poly (sfac cte * s) (sqrt (sfac cte * s)) (T * 0.025))"
    by (rule nth_pot_enthalpy_from_pt_defined[OF l e(1) assms(4) e(2) assms(6)])
  moreover have "length (pot_enthalpy_from_pt cte (map Some ?SA) (map Some ?pt)) = min (length SA) (length pt)"
    by (simp add: pot_enthalpy_from_pt_def strip_mask2_def Let_def ma_array_nan_def mask_or_def
        getmaskarray_def mask_negative_def filled_def)
  ultimately show ?thesis
    using assms(1-5)
    by (simp add: CT_from_pt_def strip_mask2_def Let_def ma_array_nan_def ma_map_def mask_or_def
        getmaskarray_def mask_negative_def filled_def)
qed

lemma gibbs_select_000: "gibbs_select sf 0 0 0 nz = Inr (Some (gibbs_000 sf nz))"
  by (simp add: gibbs_select_def)

lemma gibbs_select_010: "gibbs_select sf 0 1 0 nz = Inr (Some (gibbs_010 sf nz))"
  by (simp add: gibbs_select_def)

text \<open>
  C9 (amended). In exact arithmetic, for \<open>SA > 0\<close> and every \<open>pt\<close>:
  \<open>cp0 * CT_from_pt(SA, pt) = pot_enthalpy_from_pt(SA, pt)\<close> exactly, and
  \<open>_gibbs(0,0,0,SA,pt,0) - (273.15 + pt) * _gibbs(0,1,0,SA,pt,0)\<close> exceeds
  \<open>pot_enthalpy_from_pt(SA, pt)\<close> by the rounding residue, a polynomial in \<open>x\<close> and \<open>y\<close>
  with coefficients below \<open>1e-11\<close> plus \<open>1.4025e-12 * x2 * ln x\<close>, which the logarithmic
  terms of the two engine calls leave. For \<open>sfac * SA \<le> 1.21\<close> and \<open>|pt| \<le> 40\<close> the two
  sides differ by at most \<open>1e-10\<close>.
\<close>

theorem pot_enthalpy_engine_residue:
  assumes conf: "length pt = length SA" and i: "i < length SA"
    and ent: "SA ! i = Some s" "0 < s" "pt ! i = Some T"
    and cte: "0 < sfac cte" "cp0 cte \<noteq> 0" "Kelvin cte = 273.15"
  shows "\<exists>h ct a b.
      pot_enthalpy_from_pt cte SA pt ! i = Some h
    \<and> CT_from_pt cte SA pt ! i = Some ct \<and> cp0 cte * ct = h
    \<and> map_sum id (\<lambda>g. g ! i) (gibbs cte 0 0 0 SA pt (ma_scalar SA 0)) = Inr (Some a)
    \<and> map_sum id (\<lambda>g. g ! i) (gibbs cte 0 1 0 SA pt (ma_scalar SA 0)) = Inr (Some b)
    \<and> a - (Kelvin cte + T) * b - h = pot_enthalpy_residue (sqrt (sfac cte * s)) (T * 0.025)
    \<and> (sfac cte * s \<le> 1.21 \<and> \<bar>T\<bar> \<le> 40 \<longrightarrow> \<bar>a - (Kelvin cte + T) * b - h\<bar> \<le> 1 / 10 ^ 10)"
proof -
  let ?sf = "sfac cte"
  define x where "x = sqrt (?sf * s)"
  define y where "y = T * 0.025"
  define h where "h = pot_enthalpy_poly (?sf * s) x y"
  define a where "a = gibbs_000 ?sf True (s, T, 0)"
  define b where "b = gibbs_010 ?sf True (s, T, 0)"
  have x2: "x * x = ?sf * s" and xpos: "0 < x"
    using ent(2) cte(1) by (simp_all add: x_def)
  have nz: "nonzero_SA SA"
    using nonzero_SA_nth[OF i ent(1)] i ent(1,2) by blast
  have l0: "i < length (ma_scalar SA 0)" "ma_scalar SA 0 ! i = Some 0"
    using i by (simp_all add: ma_scalar_def)
  have hi: "pot_enthalpy_from_pt cte SA pt ! i = Some h"
    unfolding h_def x_def y_def
    using nth_pot_enthalpy_from_pt_defined[of i SA pt s T cte] conf i ent cte(1) by simp
  have ci: "CT_from_pt cte SA pt ! i = Some (h / cp0 cte)"
    unfolding h_def x_def y_def
    using nth_CT_from_pt_defined[of i SA pt s T cte] conf i ent cte(1) by simp
  have ai: "map_sum id (\<lambda>g. g ! i) (gibbs cte 0 0 0 SA pt (ma_scalar SA 0)) = Inr (Some a)"
    unfolding gibbs_Inr_map[OF conf length_ma_scalar gibbs_select_000] a_def
    using conf i ent l0 nz by (simp add: gibbs_entry_def ma_scalar_def del: gibbs_000.simps)
  have bi: "map_sum id (\<lambda>g. g ! i) (gibbs cte 0 1 0 SA pt (ma_scalar SA 0)) = Inr (Some b)"
    unfolding gibbs_Inr_map[OF conf length_ma_scalar gibbs_select_010] b_def
    using conf i ent l0 nz by (simp add: gibbs_entry_def ma_scalar_def del: gibbs_010.simps)
  have av: "a = g03_000 y 0 + (g08_000 (x * x) x y 0 + (x * x) * (5812.81456626732 + 851.226734946706 * y) * ln x)"
    unfolding a_def x2 using ent(2) by (simp add: x_def y_def Let_def)
  have bv: "b = (g03_010 y 0 + (g08_010 (x * x) x y 0 + 851.226734946706 * (x * x) * ln x)) * 0.025"
    unfolding b_def x2 using ent(2) by (simp add: x_def y_def Let_def)
  have hv: "h = pot_enthalpy_poly (x * x) x y"
    unfolding h_def x2 by simp
  have K: "Kelvin cte + T = 273.15 + y * 40"
    using cte(3) by (simp add: y_def)
  have res: "a - (Kelvin cte + T) * b - h = pot_enthalpy_residue x y"
    unfolding K av bv hv pot_enthalpy_residue_def by (rule pot_enthalpy_ring)
  have bound: "\<bar>a - (Kelvin cte + T) * b - h\<bar> \<le> 1 / 10 ^ 10" if d: "?sf * s \<le> 1.21" "\<bar>T\<bar> \<le> 40"
  proof -
    have xx: "x * x \<le> 1.1 * 1.1" using d(1) x2 by simp
    have "x \<le> 1.1"
    proof (rule ccontr)
      assume "\<not> x \<le> 1.1"
      then have "1.1 < x" by simp
      then have "1.1 * 1.1 < x * x"
        by (intro mult_strict_mono) simp_all
      then show False using xx by simp
    qed
    moreover have "\<bar>y\<bar> \<le> 1" using d(2) by (simp add: y_def)
    ultimately show ?thesis
      unfolding res using xpos by (intro pot_enthalpy_residue_bound)
  qed
  have c: "cp0 cte * (h / cp0 cte) = h"
    using cte(2) by simp
  have bound': "sfac cte * s \<le> 1.21 \<and> \<bar>T\<bar> \<le> 40 \<longrightarrow> \<bar>a - (Kelvin cte + T) * b - h\<bar> \<le> 1 / 10 ^ 10"
    using bound by simp
  show ?thesis
    by (intro exI[of _ h] exI[of _ "h / cp0 cte"] exI[of _ a] exI[of _ b] conjI
          hi ci c ai bi res[unfolded x_def y_def] bound')
qed

theorem pot_enthalpy_engine_residue_witness:
  "\<exists>h ct a b.
      pot_enthalpy_from_pt cte_teos10 [Some (10000000000000000 / 248826675584615)] [Some 0] ! 0 = Some h
    \<and> CT_from_pt cte_teos10 [Some (10000000000000000 / 248826675584615)] [Some 0] ! 0 = Some ct
    \<and> cp0 cte_teos10 * ct = h
    \<and> map_sum id (\<lambda>g. g ! 0) (gibbs cte_teos10 0 0 0 [Some (10000000000000000 / 248826675584615)] [Some 0]
          (ma_scalar [Some (10000000000000000 / 248826675584615 :: real)] 0)) = Inr (Some a)
    \<and> map_sum id (\<lambda>g. g ! 0) (gibbs cte_teos10 0 1 0 [Some (10000000000000000 / 248826675584615)] [Some 0]
          (ma_scalar [Some (10000000000000000 / 248826675584615 :: real)] 0)) = Inr (Some b)
    \<and> \<bar>a - (Kelvin cte_teos10 + 0) * b - h\<bar> \<le> 1 / 10 ^ 10"
proof -
  let ?s = "10000000000000000 / 248826675584615 :: real"
  have c: "0 < sfac cte_teos10" "cp0 cte_teos10 \<noteq> 0" "Kelvin cte_teos10 = 273.15"
    by (simp_all add: cte_teos10_def)
  have d: "sfac cte_teos10 * ?s \<le> 1.21 \<and> \<bar>0::real\<bar> \<le> 40"
    by (simp add: cte_teos10_def)
  have e: "length [Some (0::real)] = length [Some ?s]" "0 < length [Some ?s]" "[Some ?s] ! 0 = Some ?s"
    "0 < ?s" "[Some (0::real)] ! 0 = Some 0"
    by simp_all
  from pot_enthalpy_engine_residue[OF e c]
  obtain h ct a b where r:
    "pot_enthalpy_from_pt cte_teos10 [Some ?s] [Some 0] ! 0 = Some h"
    "CT_from_pt cte_teos10 [Some ?s] [Some 0] ! 0 = Some ct" "cp0 cte_teos10 * ct = h"
    "map_sum id (\<lambda>g. g ! 0) (gibbs cte_teos10 0 0 0 [Some ?s] [Some 0] (ma_scalar [Some ?s] 0)) = Inr (Some a)"
    "map_sum id (\<lambda>g. g ! 0) (gibbs cte_teos10 0 1 0 [Some ?s] [Some 0] (ma_scalar [Some ?s] 0)) = Inr (Some b)"
    "sfac cte_teos10 * ?s \<le> 1.21 \<and> \<bar>0::real\<bar> \<le> 40 \<longrightarrow> \<bar>a - (Kelvin cte_teos10 + 0) * b - h\<bar> \<le> 1 / 10 ^ 10"
    by blast
  from r(6) d have "\<bar>a - (Kelvin cte_teos10 + 0) * b - h\<bar> \<le> 1 / 10 ^ 10"
    by (rule mp)
  with r(1-5) show ?thesis
    by (intro exI[of _ h] exI[of _ ct] exI[of _ a] exI[of _ b] conjI)
qed

text \<open>
  The claim as first stated fails at \<open>SA = 1 / sfac\<close> (so that \<open>x = 1\<close> and \<open>ln x = 0\<close>) and
  \<open>pt = 0\<close>: the engine route gives \<open>-99.1722645338838472\<close>, the literal polynomial
  \<open>-99.17226453388405\<close>.
\<close>

theorem pot_enthalpy_not_exact:
  "gibbs cte_teos10 0 0 0 [Some (10000000000000000 / 248826675584615)] [Some 0] [Some 0]
     = Inr [Some 345.6174807463031]
   \<and> gibbs cte_teos10 0 1 0 [Some (10000000000000000 / 248826675584615)] [Some 0] [Some 0]
     = Inr [Some 1.628371756471488]
   \<and> pot_enthalpy_from_pt cte_teos10 [Some (10000000000000000 / 248826675584615)] [Some 0]
     = [Some (- 99.17226453388405)]
   \<and> 345.6174807463031 - (Kelvin cte_teos10 + 0) * 1.628371756471488 \<noteq> - 99.17226453388405"
proof -
  have a: "gibbs cte_teos10 0 0 0 [Some (10000000000000000 / 248826675584615)] [Some 0] [Some 0]
     = Inr [Some 345.6174807463031]"
    by (simp add: gibbs_eval_defs g03_000_def g08_000_def)
  have b: "gibbs cte_teos10 0 1 0 [Some (10000000000000000 / 248826675584615)] [Some 0] [Some 0]
     = Inr [Some 1.628371756471488]"
    by (simp add: gibbs_eval_defs g03_010_def g08_010_def)
  have h: "pot_enthalpy_from_pt cte_teos10 [Some (10000000000000000 / 248826675584615)] [Some 0]
     = [Some (- 99.17226453388405)]"
    by (simp add: pot_enthalpy_from_pt_def strip_mask2_def Let_def ma_array_nan_def mask_or_def
        getmaskarray_def mask_negative_def filled_def cte_teos10_def pot_enthalpy_poly_def)
  have n: "345.6174807463031 - (Kelvin cte_teos10 + 0) * 1.628371756471488 \<noteq> - 99.17226453388405"
    by (simp add: cte_teos10_def)
  show ?thesis by (intro conjI a b h n)
qed

section \<open>Temperature from entropy\<close>

lemmas ma_eval_defs = ma_map_def ma_zip_def ma_sub_def true_divide_def ma_scalar_def
  ma_tiny_def clamp_negative_def strip_mask2_def mask_negative_def

lemma gibbs_pt0_pt0_single:
  "0 \<le> sa \<Longrightarrow> gibbs_pt0_pt0 cte [Some sa] [Some p] = [Some (gibbs_pt0_pt0_elem (sfac cte) (sa, p))]"
  by (simp add: gibbs_pt0_pt0_def ma_eval_defs filled_def getmaskarray_def mask_or_def ma_array_def
        del: gibbs_pt0_pt0_elem.simps)

lemma t_from_entropy_pass_single:
  assumes sa: "0 \<le> sa"
    and ent: "entropy_from_t_pt cte [Some sa] [Some p0] = Inr [Some en]"
    and d0: "\<not> domain_safe_divide (en - e) d0"
    and d1: "\<not> domain_safe_divide (en - e) (- gibbs_pt0_pt0_elem (sfac cte) (sa, 0.5 * (p0 - (en - e) / d0 + p0)))"
  shows "t_from_entropy_pass cte [Some sa] [Some e] ([Some p0], [Some d0])
       = Inr ([Some (p0 - (en - e) / d0)],
              [Some (- gibbs_pt0_pt0_elem (sfac cte) (sa, 0.5 * (p0 - (en - e) / d0 + p0)))],
              [Some (p0 - (en - e) / (- gibbs_pt0_pt0_elem (sfac cte) (sa, 0.5 * (p0 - (en - e) / d0 + p0))))])"
proof -
  have sub: "ma_sub [Some a] [Some b] = [Some (a - b)]" for a b :: real
    by (simp add: ma_sub_def ma_zip_def ma_map_def)
  have dv: "true_divide [Some x] [Some d] = [Some (x / d)]"
    if "\<not> domain_safe_divide x d" for x d
    using that by (simp add: true_divide_def ma_zip_def)
  have mid: "ma_map (\<lambda>(a, b). 0.5 * (a + b)) (ma_zip [Some a] [Some b]) = [Some (0.5 * (a + b))]"
    for a b :: real
    by (simp add: ma_zip_def ma_map_def)
  have neg: "ma_map uminus [Some a] = [Some (- a)]" for a :: real
    by (simp add: ma_map_def)
  show ?thesis
    unfolding t_from_entropy_pass_def prod.case Let_def ent sum.case
    by (simp only: sub dv[OF d0] mid gibbs_pt0_pt0_single[OF sa] neg dv[OF d1])
qed

lemma gibbs_pt0_pt0_linear_bound:
  fixes m1 m2 m3 m4 m5 :: real
  assumes b: "\<bar>m1\<bar> \<le> 0.001" "\<bar>m2\<bar> \<le> 0.001" "\<bar>m3\<bar> \<le> 0.001" "\<bar>m4\<bar> \<le> 0.001" "\<bar>m5\<bar> \<le> 0.001"
  shows "- 23200 < - 23178.7565971200986 + 3304.90552372589386 * m1 - 876.28858486442339 * m2 + 777.25117184842144 * m3 - 505.626448288361096 * m4 + 128.13429152494615 * m5
       \<and> - 23178.7565971200986 + 3304.90552372589386 * m1 - 876.28858486442339 * m2 + 777.25117184842144 * m3 - 505.626448288361096 * m4 + 128.13429152494615 * m5 < - 23168"
  using b[unfolded abs_le_iff] by (intro conjI; simp; linarith)

lemma gibbs_pt0_pt0_near_zero:
  fixes y :: real
  assumes y: "\<bar>y\<bar> \<le> 0.001"
  shows "- 23200 < gibbs_pt0_pt0_g03 y + gibbs_pt0_pt0_g08 1 1 y
       \<and> gibbs_pt0_pt0_g03 y + gibbs_pt0_pt0_g08 1 1 y < - 23168"
proof -
  have eq: "gibbs_pt0_pt0_g03 y + gibbs_pt0_pt0_g08 1 1 y =
      - 23178.7565971200986 + 3304.90552372589386 * y - 876.28858486442339 * y ^ 2 + 777.25117184842144 * y ^ 3 - 505.626448288361096 * y ^ 4 + 128.13429152494615 * y ^ 5"
    unfolding gibbs_pt0_pt0_g03_def gibbs_pt0_pt0_g08_def by algebra
  have p: "\<bar>y ^ Suc k\<bar> \<le> 0.001" for k
  proof -
    have "\<bar>y\<bar> ^ Suc k \<le> \<bar>y\<bar> ^ 1"
      using y by (intro power_decreasing) simp_all
    then show ?thesis using y by (simp add: power_abs del: power_Suc)
  qed
  have "\<bar>y\<bar> \<le> 0.001" "\<bar>y ^ 2\<bar> \<le> 0.001" "\<bar>y ^ 3\<bar> \<le> 0.001" "\<bar>y ^ 4\<bar> \<le> 0.001" "\<bar>y ^ 5\<bar> \<le> 0.001"
    using y p[of 1] p[of 2] p[of 3] p[of 4] by (simp_all add: numeral_eq_Suc del: power_Suc)
  then show ?thesis
    unfolding eq by (rule gibbs_pt0_pt0_linear_bound)
qed


lemma domain_safe_divide_small:
  assumes "\<bar>a\<bar> \<le> 1" "1 < \<bar>d\<bar>"
  shows "\<not> domain_safe_divide a d"
proof -
  have "ma_tiny \<le> 1" unfolding ma_tiny_def by simp
  moreover have "0 \<le> ma_tiny" unfolding ma_tiny_def by simp
  ultimately have "\<bar>a\<bar> * ma_tiny \<le> 1 * 1"
    using assms(1) by (intro mult_mono) simp_all
  then show ?thesis using assms(2) unfolding domain_safe_divide_def by linarith
qed

lemma entropy_from_t_pt_unit:
  "entropy_from_t_pt cte_teos10 [Some (10000000000000000 / 248826675584615)] [Some 0]
     = Inr [Some (- 1.628371756471488)]"
    by (simp add: entropy_from_t_pt_def Let_def ma_eval_defs gibbs_def broadcast_shape_def
          broadcast_to_def nonzero_SA_def ma_all_def
          filled_def getmaskarray_def mask_or_def ma_array_def masked_less_equal_def cte_teos10_def
          g03_010_def g08_010_def)

lemma t_from_entropy_init_unit:
  "t_from_entropy_init cte_teos10 [Some (10000000000000000 / 248826675584615)]
          [Some (3991.86795711963 / 273.15 * (1 - 10000000000000000 / 248826675584615 / 35.16504)
                 * (1 - 1.01 * (1 - 10000000000000000 / 248826675584615 / 35.16504)))]
      = ([Some 0], [Some (138606526288876197850084563558349 / 9552120535714295867032750000000)])"
    by (simp add: t_from_entropy_init_def Let_def ma_eval_defs domain_safe_divide_def cte_teos10_def)


text \<open>
  C8. \<^verbatim>\<open>t_from_entropy\<close> is documented as three passes of the modified Newton method of
  the potential-temperature solver, where the re-applied update is the iterate of the next
  pass. The loop assigns the re-applied update to \<open>t\<close> and leaves the half-way value in
  \<open>pt\<close>, which the next pass reads. On \<open>SA = 1 / sfac\<close> and the entropy of the
  salinity-only term (so that the initial estimate is \<open>pt = 0\<close>) the first pass leaves the
  half-way value \<open>pt1\<close> in \<open>(-0.05242, -0.05241)\<close> and the re-applied update \<open>t1\<close> in
  \<open>(-0.05253, -0.05245)\<close>, and the second pass starts from \<open>pt1\<close>.
\<close>

theorem t_from_entropy_carries_half_way_value:
  "\<exists>pt1 d1 t1.
     t_from_entropy_pass cte_teos10 [Some (10000000000000000 / 248826675584615)]
        [Some (3991.86795711963 / 273.15 * (1 - 10000000000000000 / 248826675584615 / 35.16504)
               * (1 - 1.01 * (1 - 10000000000000000 / 248826675584615 / 35.16504)))]
        (t_from_entropy_init cte_teos10 [Some (10000000000000000 / 248826675584615)]
          [Some (3991.86795711963 / 273.15 * (1 - 10000000000000000 / 248826675584615 / 35.16504)
                 * (1 - 1.01 * (1 - 10000000000000000 / 248826675584615 / 35.16504)))])
       = Inr ([Some pt1], [Some d1], [Some t1])
     \<and> - 0.05242 < pt1 \<and> pt1 < - 0.05241 \<and> - 0.05253 < t1 \<and> t1 < - 0.05245
     \<and> (case t_from_entropy_init cte_teos10 [Some (10000000000000000 / 248826675584615)]
          [Some (3991.86795711963 / 273.15 * (1 - 10000000000000000 / 248826675584615 / 35.16504)
                 * (1 - 1.01 * (1 - 10000000000000000 / 248826675584615 / 35.16504)))] of
           (pt0, d0) \<Rightarrow>
             t_from_entropy_loop (Suc (Suc 0)) cte_teos10 [Some (10000000000000000 / 248826675584615)]
               [Some (3991.86795711963 / 273.15 * (1 - 10000000000000000 / 248826675584615 / 35.16504)
                 * (1 - 1.01 * (1 - 10000000000000000 / 248826675584615 / 35.16504)))] (pt0, d0, None))
       = map_sum id (\<lambda>(pt2, d2, t2). (pt2, d2, Some t2))
           (t_from_entropy_pass cte_teos10 [Some (10000000000000000 / 248826675584615)]
             [Some (3991.86795711963 / 273.15 * (1 - 10000000000000000 / 248826675584615 / 35.16504)
                 * (1 - 1.01 * (1 - 10000000000000000 / 248826675584615 / 35.16504)))]
             ([Some pt1], [Some d1]))"
proof -
  define sa :: real where "sa = 10000000000000000 / 248826675584615"
  define e :: real where "e = 3991.86795711963 / 273.15 * (1 - 10000000000000000 / 248826675584615 / 35.16504)
                 * (1 - 1.01 * (1 - 10000000000000000 / 248826675584615 / 35.16504))"
  define en :: real where "en = - 1.628371756471488"
  define d0 :: real where "d0 = 138606526288876197850084563558349 / 9552120535714295867032750000000"
  define pt1 where "pt1 = 0 - (en - e) / d0"
  define d1 where "d1 = - gibbs_pt0_pt0_elem (sfac cte_teos10) (sa, 0.5 * (pt1 + 0))"
  define t1 where "t1 = 0 - (en - e) / d1"
  have init: "t_from_entropy_init cte_teos10 [Some sa] [Some e] = ([Some 0], [Some d0])"
    unfolding sa_def e_def d0_def by (rule t_from_entropy_init_unit)
  have ent: "entropy_from_t_pt cte_teos10 [Some sa] [Some 0] = Inr [Some en]"
    unfolding sa_def en_def by (rule entropy_from_t_pt_unit)
  have de: "0.7606 < en - e" "en - e < 0.76061"
    unfolding en_def e_def by simp_all
  have pt1: "- 0.05242 < pt1" "pt1 < - 0.05241"
    unfolding pt1_def en_def e_def d0_def by simp_all
  have x2: "sfac cte_teos10 * sa = 1"
    unfolding sa_def cte_teos10_def by simp
  have y: "\<bar>0.5 * (pt1 + 0) * 0.025\<bar> \<le> 0.001"
    using pt1 by simp
  define G where "G = gibbs_pt0_pt0_g03 (0.5 * (pt1 + 0) * 0.025)
        + gibbs_pt0_pt0_g08 1 1 (0.5 * (pt1 + 0) * 0.025)"
  have G: "- 23200 < G" "G < - 23168"
    using gibbs_pt0_pt0_near_zero[OF y] unfolding G_def by (rule conjunct1, rule conjunct2)
  have d1_eq: "d1 = - (G * 0.000625)"
    unfolding d1_def G_def by (simp only: gibbs_pt0_pt0_elem.simps Let_def x2 real_sqrt_one)
  have d1: "14.48 < d1" "d1 < 14.5"
    unfolding d1_eq using G by (simp; linarith)+
  have sa0: "0 \<le> sa" unfolding sa_def by simp
  have nd0: "\<not> domain_safe_divide (en - e) d0"
    by (rule domain_safe_divide_small) (use de in \<open>simp_all add: d0_def\<close>)
  have nd1: "\<not> domain_safe_divide (en - e) (- gibbs_pt0_pt0_elem (sfac cte_teos10) (sa, 0.5 * (0 - (en - e) / d0 + 0)))"
    unfolding pt1_def[symmetric] d1_def[symmetric]
    by (rule domain_safe_divide_small) (use de d1 in simp_all)
  have pass: "t_from_entropy_pass cte_teos10 [Some sa] [Some e] ([Some 0], [Some d0])
      = Inr ([Some pt1], [Some d1], [Some t1])"
    unfolding t1_def d1_def pt1_def by (rule t_from_entropy_pass_single[OF sa0 ent nd0 nd1])
  define q where "q = (en - e) / d1"
  have "q < 0.76061 / 14.48"
    unfolding q_def using de d1 by (intro frac_less2) simp_all
  moreover have "0.7606 / 14.5 < q"
    unfolding q_def using de d1 by (intro frac_less2) simp_all
  ultimately have t1: "- 0.05253 < t1" "t1 < - 0.05245"
    unfolding t1_def q_def[symmetric] by simp_all
  have loop: "(case t_from_entropy_init cte_teos10 [Some sa] [Some e] of
           (pt0, d0) \<Rightarrow> t_from_entropy_loop (Suc (Suc 0)) cte_teos10 [Some sa] [Some e] (pt0, d0, None))
       = map_sum id (\<lambda>(pt2, d2, t2). (pt2, d2, Some t2))
           (t_from_entropy_pass cte_teos10 [Some sa] [Some e] ([Some pt1], [Some d1]))"
    unfolding init prod.case t_from_entropy_loop.simps pass sum.case
    by (cases "t_from_entropy_pass cte_teos10 [Some sa] [Some e] ([Some pt1], [Some d1])")
       (simp_all split: prod.splits)
  have "\<exists>pt1 d1 t1.
     t_from_entropy_pass cte_teos10 [Some sa] [Some e] (t_from_entropy_init cte_teos10 [Some sa] [Some e])
       = Inr ([Some pt1], [Some d1], [Some t1])
     \<and> - 0.05242 < pt1 \<and> pt1 < - 0.05241 \<and> - 0.05253 < t1 \<and> t1 < - 0.05245
     \<and> (case t_from_entropy_init cte_teos10 [Some sa] [Some e] of
           (pt0, d0) \<Rightarrow>
             t_from_entropy_loop (Suc (Suc 0)) cte_teos10 [Some sa] [Some e] (pt0, d0, None))
       = map_sum id (\<lambda>(pt2, d2, t2). (pt2, d2, Some t2))
           (t_from_entropy_pass cte_teos10 [Some sa] [Some e] ([Some pt1], [Some d1]))"
    apply (rule exI[of _ pt1], rule exI[of _ d1], rule exI[of _ t1])
    apply (intro conjI pass[folded init] pt1 t1 loop)
    done
  then show ?thesis
    unfolding e_def sa_def .
qed


section \<open>The Baltic branch of \<^verbatim>\<open>SP_from_Sstar\<close>\<close>

lemma SP_from_SA_Baltic_example:
  "SP_from_SA_Baltic cte_teos10 [Some 6.6699] [Some 20] [Some 59]
     = Inr (Some [Some (35 / (35.16504 - 0.087) * (6.6699 - 0.087))])"
  by (simp add: SP_from_SA_Baltic_def broadcast_shape_def broadcast_to_def inds_baltic_of_def
        inds_baltic1_of_def getitem_bool_def setitem_bool_def ma_map_def Let_def cte_teos10_def)

lemma indsbaltic_unbound: "module_scope ''indsbaltic'' = None"
  by (simp add: module_scope_def module_names_def)

text \<open>
  C10. The Baltic branch of \<^verbatim>\<open>SP_from_Sstar\<close> reads the name \<^verbatim>\<open>indsbaltic\<close>, which is
  bound neither in the function nor in the module. On \<open>Sstar = [6.6699]\<close>, \<open>p = [10]\<close>,
  \<open>lon = [20]\<close>, \<open>lat = [59]\<close> (the Baltic Sea, the first entry of the example in the
  docstring of \<^verbatim>\<open>_SP_from_SA_Baltic\<close>) the helper returns \<open>[6.568...]\<close>, and whenever
  \<^verbatim>\<open>_delta_SA\<close> returns an array the call ends in the \<^verbatim>\<open>NameError\<close> of that name.
\<close>

theorem SP_from_Sstar_baltic_name_error:
  "SP_from_SA_Baltic cte_teos10 [Some 6.6699] [Some 20] [Some 59]
     = Inr (Some [Some (35 / (35.16504 - 0.087) * (6.6699 - 0.087))])
   \<and> SP_from_Sstar cte_teos10 (\<lambda>p lon lat. Inr [Some dSA]) [Some 6.6699] [Some 10] [Some 20] [Some 59]
     = Inl (NameError ''indsbaltic'')"
  by (simp add: SP_from_Sstar_def SP_from_SA_Baltic_example[simplified] indsbaltic_unbound
        load_name_def broadcast_shape_def broadcast_to_def Let_def)

end
